theory Spec2Isabelle
  imports Complex_Main
begin

section \<open>Filter state (dashboard.js, initFilterControls)\<close>

text \<open>
  \<^verbatim>\<open>const dashboardFilters = { start: null, end: null };\<close>
  A filter bound is either \<^verbatim>\<open>null\<close> or the non-empty text of a date input.
\<close>

record dashboard_filters =
  fstart :: "string option"
  fend :: "string option"

text \<open>
  What a handler does besides writing \<^verbatim>\<open>dashboardFilters\<close>: the calls it makes, in
  order (\<^verbatim>\<open>alert(..)\<close>, \<^verbatim>\<open>updateFilterLabel()\<close>, \<^verbatim>\<open>loadDashboardData()\<close>).
\<close>

datatype effect = Alert string | UpdateFilterLabel | LoadDashboardData

record page =
  dashboardFilters :: dashboard_filters
  effects :: "effect list"

text \<open>\<^verbatim>\<open>input.value || null\<close>: the empty string is falsy.\<close>

definition or_null :: "string \<Rightarrow> string option" where
  "or_null v = (if v = [] then None else Some v)"

text \<open>
  The relational operator \<^verbatim>\<open>a > b\<close> of JavaScript on two strings: code units are compared
  from the left, and a proper prefix is smaller.
\<close>

fun js_string_gt :: "string \<Rightarrow> string \<Rightarrow> bool" where
  "js_string_gt [] _ = False"
| "js_string_gt (a # as) [] = True"
| "js_string_gt (a # as) (b # bs) =
     ((of_char b :: nat) < of_char a \<or> (a = b \<and> js_string_gt as bs))"

text \<open>
  The click handler of \<^verbatim>\<open>applyFiltersBtn\<close>:
  \<^verbatim>\<open>
  const startValue = startInput.value || null;
  const endValue = endInput.value || null;
  if (startValue && endValue && startValue > endValue) {
      alert("Start date must be before end date.");
      return;
  }
  dashboardFilters.start = startValue;
  dashboardFilters.end = endValue;
  updateFilterLabel();
  loadDashboardData();
  \<close>
\<close>

definition applyFilters :: "string \<Rightarrow> string \<Rightarrow> page \<Rightarrow> page" where
  "applyFilters startInput endInput p =
     (let startValue = or_null startInput; endValue = or_null endInput in
      case (startValue, endValue) of
        (Some s, Some e) \<Rightarrow>
          if js_string_gt s e
          then p\<lparr>effects := effects p @ [Alert ''Start date must be before end date.'']\<rparr>
          else p\<lparr>dashboardFilters := \<lparr>fstart = startValue, fend = endValue\<rparr>,
                 effects := effects p @ [UpdateFilterLabel, LoadDashboardData]\<rparr>
      | _ \<Rightarrow>
          p\<lparr>dashboardFilters := \<lparr>fstart = startValue, fend = endValue\<rparr>,
            effects := effects p @ [UpdateFilterLabel, LoadDashboardData]\<rparr>)"

text \<open>The click handler of \<^verbatim>\<open>clearFiltersBtn\<close>.\<close>

definition clearFilters :: "page \<Rightarrow> page" where
  "clearFilters p =
     p\<lparr>dashboardFilters := \<lparr>fstart = None, fend = None\<rparr>,
       effects := effects p @ [UpdateFilterLabel, LoadDashboardData]\<rparr>"

section \<open>JavaScript numbers and their text\<close>

text \<open>
  A JavaScript number is not-a-number, an infinity or a finite value. Finite values are
  taken as exact rationals: the rounding of binary floating point is not part of this
  model, and the text of a number is given for integral values only (the script prints no
  others), in plain decimal digits.
\<close>

datatype jsnum = NaN | PosInf | NegInf | Fin rat

text \<open>A value that may or may not be of type number (\<^verbatim>\<open>typeof v === "number"\<close>).\<close>

datatype jsval = Undefined | Null | Str string | Num jsnum

definition js_isNaN :: "jsnum \<Rightarrow> bool" where
  "js_isNaN n = (n = NaN)"

text \<open>\<^verbatim>\<open>n <= 0\<close>: false on not-a-number.\<close>

fun js_le_zero :: "jsnum \<Rightarrow> bool" where
  "js_le_zero NaN = False"
| "js_le_zero PosInf = False"
| "js_le_zero NegInf = True"
| "js_le_zero (Fin x) = (x \<le> 0)"

text \<open>Truthiness of a number: zero and not-a-number are falsy.\<close>

fun js_truthy :: "jsnum \<Rightarrow> bool" where
  "js_truthy NaN = False"
| "js_truthy (Fin x) = (x \<noteq> 0)"
| "js_truthy _ = True"

text \<open>\<^verbatim>\<open>Math.round\<close> (halves go up) and \<^verbatim>\<open>Math.floor\<close>.\<close>

fun js_round :: "jsnum \<Rightarrow> jsnum" where
  "js_round (Fin x) = Fin (of_int \<lfloor>x + 1 / 2\<rfloor>)"
| "js_round n = n"

fun js_floor :: "jsnum \<Rightarrow> jsnum" where
  "js_floor (Fin x) = Fin (of_int \<lfloor>x\<rfloor>)"
| "js_floor n = n"

text \<open>\<^verbatim>\<open>n / k\<close> and \<^verbatim>\<open>n % k\<close> for a positive finite constant \<open>k\<close>; the remainder
  takes the sign of the dividend and is not-a-number when the dividend is not finite.\<close>

fun js_div_pos :: "jsnum \<Rightarrow> rat \<Rightarrow> jsnum" where
  "js_div_pos (Fin x) k = Fin (x / k)"
| "js_div_pos n k = n"

fun js_rem_pos :: "jsnum \<Rightarrow> rat \<Rightarrow> jsnum" where
  "js_rem_pos (Fin x) k =
     Fin (x - k * of_int (if 0 \<le> x then \<lfloor>x / k\<rfloor> else \<lceil>x / k\<rceil>))"
| "js_rem_pos n k = NaN"

fun js_add :: "jsnum \<Rightarrow> jsnum \<Rightarrow> jsnum" where
  "js_add NaN _ = NaN"
| "js_add _ NaN = NaN"
| "js_add PosInf NegInf = NaN"
| "js_add NegInf PosInf = NaN"
| "js_add PosInf _ = PosInf"
| "js_add _ PosInf = PosInf"
| "js_add NegInf _ = NegInf"
| "js_add _ NegInf = NegInf"
| "js_add (Fin a) (Fin b) = Fin (a + b)"

definition digit_char :: "nat \<Rightarrow> char" where
  "digit_char d = ''0123456789'' ! d"

fun show_nat :: "nat \<Rightarrow> string" where
  "show_nat n =
     (if n < 10 then [digit_char n] else show_nat (n div 10) @ [digit_char (n mod 10)])"

declare show_nat.simps [simp del]

text \<open>The text of a number in a template literal (\<^verbatim>\<open>`${hours}h`\<close>).\<close>

fun js_to_string :: "jsnum \<Rightarrow> string" where
  "js_to_string NaN = ''NaN''"
| "js_to_string PosInf = ''Infinity''"
| "js_to_string NegInf = ''-Infinity''"
| "js_to_string (Fin x) =
     (if x < 0 then ''-'' @ show_nat (nat (- \<lfloor>x\<rfloor>)) else show_nat (nat \<lfloor>x\<rfloor>))"

text \<open>\<^verbatim>\<open>parts.join(" ")\<close>.\<close>

fun js_join :: "string list \<Rightarrow> string" where
  "js_join [] = []"
| "js_join [a] = a"
| "js_join (a # b # bs) = a @ '' '' @ js_join (b # bs)"

section \<open>Duration text (dashboard.js, formatDurationDisplay)\<close>

text \<open>
  \<^verbatim>\<open>
  function formatDurationDisplay(seconds) {
      if (typeof seconds !== "number" || Number.isNaN(seconds) || seconds <= 0) {
          return "-";
      }
      const rounded = Math.round(seconds);
      const hours = Math.floor(rounded / 3600);
      const minutes = Math.floor((rounded % 3600) / 60);
      const secs = rounded % 60;
      const parts = [];
      if (hours) { parts.push(`${hours}h`); }
      if (minutes) { parts.push(`${minutes}m`); }
      if (!hours && secs) { parts.push(`${secs}s`); }
      return parts.join(" ") || `${rounded}s`;
  }
  \<close>
\<close>

definition formatDurationDisplay :: "jsval \<Rightarrow> string" where
  "formatDurationDisplay seconds =
     (case seconds of
        Num n \<Rightarrow>
          if js_isNaN n \<or> js_le_zero n then ''-''
          else
            let rounded = js_round n;
                hours = js_floor (js_div_pos rounded 3600);
                minutes = js_floor (js_div_pos (js_rem_pos rounded 3600) 60);
                secs = js_rem_pos rounded 60;
                parts =
                  (if js_truthy hours then [js_to_string hours @ ''h''] else []) @
                  (if js_truthy minutes then [js_to_string minutes @ ''m''] else []) @
                  (if \<not> js_truthy hours \<and> js_truthy secs then [js_to_string secs @ ''s'']
                   else [])
            in if js_join parts = [] then js_to_string rounded @ ''s'' else js_join parts
      | _ \<Rightarrow> ''-'')"

section \<open>Ease-comparison average (dashboard.js, calcAverage in renderEaseComparisonChart)\<close>

text \<open>One point of a series, \<^verbatim>\<open>{period, value}\<close>; a missing or null value is \<open>None\<close>.\<close>

record ease_entry =
  period :: string
  val :: "jsnum option"

text \<open>\<^verbatim>\<open>entry.value || 0\<close>.\<close>

definition or_zero :: "jsnum option \<Rightarrow> jsnum" where
  "or_zero v = (case v of None \<Rightarrow> Fin 0 | Some n \<Rightarrow> if js_truthy n then n else Fin 0)"

text \<open>
  \<^verbatim>\<open>parseFloat(x.toFixed(2))\<close>: \<^verbatim>\<open>toFixed(2)\<close> writes the magnitude with the two
  fraction digits nearest to it (of two equally near, the larger), behind the sign, and
  \<^verbatim>\<open>parseFloat\<close> reads that decimal back; the texts of the non-finite numbers read back
  as themselves. (Magnitudes from \<open>10\<^sup>2\<^sup>1\<close> on, which \<^verbatim>\<open>toFixed\<close> writes unrounded,
  are not treated apart.)
\<close>

fun toFixed2_parseFloat :: "jsnum \<Rightarrow> jsnum" where
  "toFixed2_parseFloat (Fin x) = Fin (sgn x * of_int \<lfloor>\<bar>x\<bar> * 100 + 1 / 2\<rfloor> / 100)"
| "toFixed2_parseFloat n = n"

text \<open>An exception of the language, as a value.\<close>

datatype js_error = TypeError

text \<open>
  What is passed as a series: \<^verbatim>\<open>undefined\<close> (the object has no such property),
  \<^verbatim>\<open>null\<close>, or an array, whose elements are entries or \<^verbatim>\<open>null\<close>. (A series that is
  none of these is not modelled.)
\<close>

datatype series_arg = SeriesUndefined | SeriesNull | SeriesArray "ease_entry option list"

text \<open>
  \<^verbatim>\<open>items.reduce((total, entry) => total + (entry.value || 0), 0)\<close>. Reading
  \<^verbatim>\<open>.value\<close> of an element that is \<^verbatim>\<open>null\<close> throws a \<^verbatim>\<open>TypeError\<close>. \<open>acc\<close>
  is the running \<^verbatim>\<open>total\<close>.
\<close>

fun reduce_values :: "jsnum \<Rightarrow> ease_entry option list \<Rightarrow> js_error + jsnum" where
  "reduce_values acc [] = Inr acc"
| "reduce_values acc (None # entries) = Inl TypeError"
| "reduce_values acc (Some entry # entries) =
     reduce_values (js_add acc (or_zero (val entry))) entries"

text \<open>
  \<^verbatim>\<open>
  const calcAverage = (items = []) => {
      if (!items.length) return 0;
      const sum = items.reduce((total, entry) => total + (entry.value || 0), 0);
      return parseFloat((sum / items.length).toFixed(2));
  };
  \<close>
  The default \<^verbatim>\<open>[]\<close> stands in for \<^verbatim>\<open>undefined\<close> only: reading \<^verbatim>\<open>.length\<close> of
  \<^verbatim>\<open>null\<close> throws.
\<close>

definition calcAverage :: "series_arg \<Rightarrow> js_error + jsnum" where
  "calcAverage items_arg =
     (case items_arg of
        SeriesUndefined \<Rightarrow> Inr (Fin 0)
      | SeriesNull \<Rightarrow> Inl TypeError
      | SeriesArray items \<Rightarrow>
          if length items = 0 then Inr (Fin 0)
          else (case reduce_values (Fin 0) items of
                  Inl e \<Rightarrow> Inl e
                | Inr sum_all \<Rightarrow>
                    Inr (toFixed2_parseFloat (js_div_pos sum_all (of_nat (length items))))))"



section \<open>Dates of the host language\<close>

text \<open>
  A \<^verbatim>\<open>Date\<close> holds a time value: milliseconds since 1970-01-01T00:00:00Z. Day numbers
  count days since that date, in the proleptic Gregorian calendar. The host's time zone is
  a parameter \<open>tz\<close>, the minutes that local time is ahead of UTC (negative west of
  Greenwich), taken as constant: daylight-saving changes are not modelled.
\<close>

definition msPerDay :: int where
  "msPerDay = 86400000"

definition days_from_civil :: "int \<Rightarrow> int \<Rightarrow> int \<Rightarrow> int" where
  "days_from_civil y m d =
     (let y' = (if m \<le> 2 then y - 1 else y);
          era = y' div 400;
          yoe = y' - era * 400;
          doy = (153 * (if 2 < m then m - 3 else m + 9) + 2) div 5 + d - 1;
          doe = yoe * 365 + yoe div 4 - yoe div 100 + doy
      in era * 146097 + doe - 719468)"

definition civil_from_days :: "int \<Rightarrow> int \<times> int \<times> int" where
  "civil_from_days z =
     (let z' = z + 719468;
          era = z' div 146097;
          doe = z' - era * 146097;
          yoe = (doe - doe div 1460 + doe div 36524 - doe div 146096) div 365;
          doy = doe - (365 * yoe + yoe div 4 - yoe div 100);
          mp = (5 * doy + 2) div 153;
          d = doy - (153 * mp + 2) div 5 + 1;
          m = (if mp < 10 then mp + 3 else mp - 9);
          y = yoe + era * 400
      in (if m \<le> 2 then y + 1 else y, m, d))"

definition is_leap :: "int \<Rightarrow> bool" where
  "is_leap y = (y mod 4 = 0 \<and> (y mod 100 \<noteq> 0 \<or> y mod 400 = 0))"

definition days_in_month :: "int \<Rightarrow> int \<Rightarrow> int" where
  "days_in_month y m =
     (if m = 2 then (if is_leap y then 29 else 28)
      else if m = 4 \<or> m = 6 \<or> m = 9 \<or> m = 11 then 30 else 31)"

text \<open>The local time value of a time value, and back.\<close>

definition local_time :: "int \<Rightarrow> int \<Rightarrow> int" where
  "local_time tz t = t + tz * 60000"

definition utc_time :: "int \<Rightarrow> int \<Rightarrow> int" where
  "utc_time tz t = t - tz * 60000"

text \<open>
  \<^verbatim>\<open>date.setHours(h, mi, s, ms)\<close>: the local day of the date is kept and its local time
  of day replaced.
\<close>

definition setHours :: "int \<Rightarrow> int \<Rightarrow> int \<Rightarrow> int \<Rightarrow> int \<Rightarrow> int \<Rightarrow> int" where
  "setHours tz t h mi s ms =
     utc_time tz ((local_time tz t div msPerDay) * msPerDay
                  + (h * 3600000 + mi * 60000 + s * 1000 + ms))"

text \<open>\<^verbatim>\<open>date.getUTCDay()\<close>: 0 is Sunday; day number 0 was a Thursday.\<close>

definition getUTCDay :: "int \<Rightarrow> int" where
  "getUTCDay t = (t div msPerDay + 4) mod 7"

definition getUTCDate :: "int \<Rightarrow> int" where
  "getUTCDate t = (case civil_from_days (t div msPerDay) of (y, m, d) \<Rightarrow> d)"

text \<open>
  \<^verbatim>\<open>date.setUTCDate(dt)\<close>: day \<open>dt\<close> counted from the first of the date's UTC month (a
  \<open>dt\<close> outside the month runs over into the neighbouring months), at the same time of day.
\<close>

definition setUTCDate :: "int \<Rightarrow> int \<Rightarrow> int" where
  "setUTCDate t dt =
     (case civil_from_days (t div msPerDay) of
        (y, m, d) \<Rightarrow> (days_from_civil y m 1 + dt - 1) * msPerDay + t mod msPerDay)"

text \<open>
  \<^verbatim>\<open>Date.UTC(year, 0, 4)\<close>-style construction of a UTC midnight; a year from 0 to 99
  stands for 1900 + year.
\<close>

definition full_year :: "int \<Rightarrow> int" where
  "full_year year = (if 0 \<le> year \<and> year \<le> 99 then 1900 + year else year)"

definition Date_UTC :: "int \<Rightarrow> int \<Rightarrow> int \<Rightarrow> int" where
  "Date_UTC year month0 day = days_from_civil (full_year year) (month0 + 1) day * msPerDay"

subsection \<open>Reading and writing date text\<close>

text \<open>The value of a decimal digit, by its character code (48 to 57).\<close>

definition digit_val :: "char \<Rightarrow> nat option" where
  "digit_val c =
     (let code = (of_char c :: nat) in
      if 48 \<le> code \<and> code \<le> 57 then Some (code - 48) else None)"

text \<open>The number written by a run of decimal digits; \<open>None\<close> if a character is no digit.\<close>

fun read_digits :: "nat \<Rightarrow> string \<Rightarrow> nat option" where
  "read_digits acc [] = Some acc"
| "read_digits acc (c # cs) =
     (case digit_val c of None \<Rightarrow> None | Some d \<Rightarrow> read_digits (10 * acc + d) cs)"

text \<open>The date-only form \<^verbatim>\<open>YYYY-MM-DD\<close>, which is what a date input holds.\<close>

definition parse_date_only :: "string \<Rightarrow> (int \<times> int \<times> int) option" where
  "parse_date_only s =
     (if length s = 10 \<and> s ! 4 = CHR ''-'' \<and> s ! 7 = CHR ''-''
      then (case (read_digits 0 (take 4 s), read_digits 0 (take 2 (drop 5 s)),
                  read_digits 0 (drop 8 s)) of
              (Some y, Some m, Some d) \<Rightarrow>
                if 1 \<le> m \<and> m \<le> 12 \<and> 1 \<le> d \<and> int d \<le> days_in_month (int y) (int m)
                then Some (int y, int m, int d) else None
            | _ \<Rightarrow> None)
      else None)"

text \<open>
  \<^verbatim>\<open>new Date(value).getTime()\<close>, \<open>None\<close> for not-a-number. The language fixes the
  reading of the date-only form: midnight UTC of that day. What any other text reads as
  is left to the host, the parameter \<open>host\<close>.
\<close>

definition js_date_parse :: "(string \<Rightarrow> int option) \<Rightarrow> string \<Rightarrow> int option" where
  "js_date_parse host s =
     (case parse_date_only s of
        Some (y, m, d) \<Rightarrow> Some (days_from_civil y m d * msPerDay)
      | None \<Rightarrow> host s)"

definition pad_nat :: "nat \<Rightarrow> nat \<Rightarrow> string" where
  "pad_nat w n = replicate (w - length (show_nat n)) (CHR ''0'') @ show_nat n"

text \<open>The value of a date input: \<^verbatim>\<open>YYYY-MM-DD\<close>.\<close>

definition iso_date :: "nat \<Rightarrow> nat \<Rightarrow> nat \<Rightarrow> string" where
  "iso_date y m d = pad_nat 4 y @ ''-'' @ pad_nat 2 m @ ''-'' @ pad_nat 2 d"

text \<open>
  A date field is empty or holds a date; its value is the empty text or the date written
  as above (the year with more digits when it has more than four).
\<close>

definition date_input_value :: "(nat \<times> nat \<times> nat) option \<Rightarrow> string" where
  "date_input_value v = (case v of None \<Rightarrow> [] | Some (y, m, d) \<Rightarrow> iso_date y m d)"

text \<open>A calendar date whose year has at most four digits.\<close>

definition four_digit_date :: "nat \<times> nat \<times> nat \<Rightarrow> bool" where
  "four_digit_date v =
     (case v of (y, m, d) \<Rightarrow> y \<le> 9999 \<and> 1 \<le> m \<and> m \<le> 12 \<and> 1 \<le> d \<and> d \<le> 31)"

text \<open>The first date is later than the second.\<close>

definition date_later :: "nat \<times> nat \<times> nat \<Rightarrow> nat \<times> nat \<times> nat \<Rightarrow> bool" where
  "date_later a b =
     (case (a, b) of
        ((y, m, d), (y', m', d')) \<Rightarrow> y' < y \<or> (y' = y \<and> (m' < m \<or> (m' = m \<and> d' < d))))"

text \<open>Both fields hold a date and the start is the later one.\<close>

definition start_after_end ::
  "(nat \<times> nat \<times> nat) option \<Rightarrow> (nat \<times> nat \<times> nat) option \<Rightarrow> bool" where
  "start_after_end s e =
     (case (s, e) of (Some a, Some b) \<Rightarrow> date_later a b | _ \<Rightarrow> False)"

definition four_digit_field :: "(nat \<times> nat \<times> nat) option \<Rightarrow> bool" where
  "four_digit_field v = (case v of None \<Rightarrow> True | Some a \<Rightarrow> four_digit_date a)"

text \<open>\<^verbatim>\<open>date.toISOString()\<close>: the UTC date and time, \<^verbatim>\<open>YYYY-MM-DDTHH:mm:ss.sssZ\<close>, the
  year with a sign and six digits outside 0 to 9999.\<close>

definition toISOString :: "int \<Rightarrow> string" where
  "toISOString t =
     (case civil_from_days (t div msPerDay) of
        (y, m, d) \<Rightarrow>
          let r = t mod msPerDay in
          (if 0 \<le> y \<and> y \<le> 9999 then pad_nat 4 (nat y)
           else (if y < 0 then ''-'' else ''+'') @ pad_nat 6 (nat \<bar>y\<bar>))
          @ ''-'' @ pad_nat 2 (nat m) @ ''-'' @ pad_nat 2 (nat d)
          @ ''T'' @ pad_nat 2 (nat (r div 3600000))
          @ '':'' @ pad_nat 2 (nat (r mod 3600000 div 60000))
          @ '':'' @ pad_nat 2 (nat (r mod 60000 div 1000))
          @ ''.'' @ pad_nat 3 (nat (r mod 1000)) @ ''Z'')"

text \<open>
  What \<^verbatim>\<open>date.toLocaleDateString(undefined, {month: "short", day: "numeric"})\<close> shows:
  the month and the day of the month of the date in the host's time zone (the wording of
  the label is the locale's).
\<close>

definition local_month_day :: "int \<Rightarrow> int \<Rightarrow> int \<times> int" where
  "local_month_day tz t =
     (case civil_from_days (local_time tz t div msPerDay) of (y, m, d) \<Rightarrow> (m, d))"

section \<open>Query string of the filter (dashboard.js, formatDateForQuery, buildFilterQuery)\<close>

text \<open>
  \<^verbatim>\<open>
  function formatDateForQuery(value, endOfDay = false) {
      if (!value) { return value; }
      const date = new Date(value);
      if (Number.isNaN(date.getTime())) { return value; }
      if (endOfDay) { date.setHours(23, 59, 59, 999); }
      else { date.setHours(0, 0, 0, 0); }
      return date.toISOString();
  }
  \<close>
\<close>

definition formatDateForQuery ::
  "(string \<Rightarrow> int option) \<Rightarrow> int \<Rightarrow> string option \<Rightarrow> bool \<Rightarrow> string option" where
  "formatDateForQuery host tz value_arg endOfDay =
     (case value_arg of
        None \<Rightarrow> None
      | Some v \<Rightarrow>
          if v = [] then Some v
          else (case js_date_parse host v of
                  None \<Rightarrow> Some v
                | Some t \<Rightarrow>
                    Some (toISOString
                      (if endOfDay then setHours tz t 23 59 59 999 else setHours tz t 0 0 0 0))))"

text \<open>
  \<^verbatim>\<open>URLSearchParams\<close>: the appended pairs, and \<^verbatim>\<open>toString()\<close>, which writes them as
  \<^verbatim>\<open>name=value\<close> joined by \<^verbatim>\<open>&\<close>, letters, digits and \<^verbatim>\<open>*-._\<close> as they are, a
  space as \<^verbatim>\<open>+\<close> and any other byte as \<^verbatim>\<open>%\<close> and two hexadecimal digits.
\<close>

definition hex_digit :: "nat \<Rightarrow> char" where
  "hex_digit d = ''0123456789ABCDEF'' ! d"

definition urlencode_char :: "char \<Rightarrow> string" where
  "urlencode_char c =
     (if c \<in> set ''abcdefghijklmnopqrstuvwxyzABCDEFGHIJKLMNOPQRSTUVWXYZ0123456789*-._'' then [c]
      else if c = CHR '' '' then ''+''
      else [CHR ''%'', hex_digit (of_char c div 16), hex_digit (of_char c mod 16)])"

definition urlencode :: "string \<Rightarrow> string" where
  "urlencode s = concat (map urlencode_char s)"

fun params_toString :: "(string \<times> string) list \<Rightarrow> string" where
  "params_toString [] = []"
| "params_toString [(k, v)] = urlencode k @ ''='' @ urlencode v"
| "params_toString ((k, v) # p # ps) =
     urlencode k @ ''='' @ urlencode v @ ''&'' @ params_toString (p # ps)"

text \<open>The text appended for a value: \<^verbatim>\<open>null\<close> would be written out as a word.\<close>

definition to_param :: "string option \<Rightarrow> string" where
  "to_param v = (case v of None \<Rightarrow> ''null'' | Some s \<Rightarrow> s)"

definition js_truthy_str :: "string option \<Rightarrow> bool" where
  "js_truthy_str v = (case v of None \<Rightarrow> False | Some s \<Rightarrow> s \<noteq> [])"

text \<open>
  \<^verbatim>\<open>
  function buildFilterQuery() {
      const params = new URLSearchParams();
      if (dashboardFilters.start) {
          params.append("start_date", formatDateForQuery(dashboardFilters.start));
      }
      if (dashboardFilters.end) {
          params.append("end_date", formatDateForQuery(dashboardFilters.end, true));
      }
      const query = params.toString();
      return query ? `?${query}` : "";
  }
  \<close>
\<close>

definition buildFilterParams ::
  "(string \<Rightarrow> int option) \<Rightarrow> int \<Rightarrow> dashboard_filters \<Rightarrow> (string \<times> string) list" where
  "buildFilterParams host tz f =
     (if js_truthy_str (fstart f)
      then [(''start_date'', to_param (formatDateForQuery host tz (fstart f) False))] else []) @
     (if js_truthy_str (fend f)
      then [(''end_date'', to_param (formatDateForQuery host tz (fend f) True))] else [])"

definition buildFilterQuery ::
  "(string \<Rightarrow> int option) \<Rightarrow> int \<Rightarrow> dashboard_filters \<Rightarrow> string" where
  "buildFilterQuery host tz f =
     (let query = params_toString (buildFilterParams host tz f)
      in if query \<noteq> [] then ''?'' @ query else [])"

section \<open>Week labels (dashboard.js, formatWeekLabel)\<close>

text \<open>A label is text handed through or a short date, month and day of the month.\<close>

datatype label = Text string | ShortDate int int

text \<open>The pattern \<^verbatim>\<open>/^(\d{4})-W(\d{2})$/\<close>: the two numbers of a matching text.\<close>

definition match_week :: "string \<Rightarrow> (nat \<times> nat) option" where
  "match_week s =
     (if length s = 8 \<and> s ! 4 = CHR ''-'' \<and> s ! 5 = CHR ''W''
      then (case (read_digits 0 (take 4 s), read_digits 0 (drop 6 s)) of
              (Some y, Some w) \<Rightarrow> Some (y, w)
            | _ \<Rightarrow> None)
      else None)"

text \<open>
  \<^verbatim>\<open>
  function formatWeekLabel(period) {
      if (!period || typeof period !== "string") { return ""; }
      const match = period.match(/^(\d{4})-W(\d{2})$/);
      if (!match) { return period; }
      const year = Number(match[1]);
      const week = Number(match[2]);
      if (!Number.isFinite(year) || !Number.isFinite(week)) { return period; }
      const startDate = new Date(Date.UTC(year, 0, 4));
      const dayOfWeek = startDate.getUTCDay() || 7;
      startDate.setUTCDate(startDate.getUTCDate() - dayOfWeek + 1 + (week - 1) * 7);
      return startDate.toLocaleDateString(undefined, { month: "short", day: "numeric" });
  }
  \<close>
  \<open>week_start\<close> is the time value of \<^verbatim>\<open>startDate\<close> when it is formatted.
\<close>

definition week_start :: "int \<Rightarrow> int \<Rightarrow> int" where
  "week_start year week =
     (let startDate = Date_UTC year 0 4;
          dayOfWeek = (if getUTCDay startDate = 0 then 7 else getUTCDay startDate)
      in setUTCDate startDate (getUTCDate startDate - dayOfWeek + 1 + (week - 1) * 7))"

definition formatWeekLabel :: "int \<Rightarrow> jsval \<Rightarrow> label" where
  "formatWeekLabel tz period_arg =
     (case period_arg of
        Str p \<Rightarrow>
          if p = [] then Text []
          else (case match_week p of
                  None \<Rightarrow> Text p
                | Some (year, week) \<Rightarrow>
                    (case local_month_day tz (week_start (int year) (int week)) of
                       (m, d) \<Rightarrow> ShortDate m d))
      | _ \<Rightarrow> Text [])"

section \<open>Refresh cycle (dashboard.js, loadDashboardData)\<close>

text \<open>The metrics the cycle loads, in the order of the function body.\<close>

datatype metric =
  ActiveUsers | Requests | Adoption | AdoptionByDepartment | LogHours | RequestDurations
  | RequestSuccessRates | InactiveEmployees | ActivitiesToday | Satisfaction | EaseComparison

text \<open>
  What \<^verbatim>\<open>await fetch(url)\<close> followed by \<^verbatim>\<open>await response.json()\<close> comes to: one of
  the two awaits throws (network failure, a body that is not JSON), or there is an envelope
  with its \<^verbatim>\<open>success\<close> flag (missing counts as false) and its \<^verbatim>\<open>data\<close>. The data of
  every metric are taken as a list of rows of one type.
\<close>

datatype 'r response = Thrown | Envelope bool "'r list"

text \<open>
  The function is one \<^verbatim>\<open>try\<close> block around eleven steps of the same shape, run one after
  the other:
  \<^verbatim>\<open>
  const logHoursResponse = await fetch(`/api/log-hours${query}`);
  const logHoursData = await logHoursResponse.json();
  if (logHoursData.success) { renderLogHoursTable(logHoursData.data); }
  else { renderLogHoursTable([]); }
  \<close>
  The steps for active users, requests, adoption, satisfaction and ease comparison have no
  \<^verbatim>\<open>else\<close> branch. \<open>dashboard_steps\<close> lists each metric with whether its step has one.
  The \<^verbatim>\<open>catch\<close> block only logs.
\<close>

definition dashboard_steps :: "(metric \<times> bool) list" where
  "dashboard_steps =
     [(ActiveUsers, False), (Requests, False), (Adoption, False),
      (AdoptionByDepartment, True), (LogHours, True), (RequestDurations, True),
      (RequestSuccessRates, True), (InactiveEmployees, True), (ActivitiesToday, True),
      (Satisfaction, False), (EaseComparison, False)]"

text \<open>
  The calls of renderers (or, for adoption and satisfaction, the writes of the value into
  the page) that the steps make, each with the rows it is given. A throw leaves the
  \<^verbatim>\<open>try\<close> block: no later step runs.
\<close>

fun run_steps :: "(metric \<Rightarrow> 'r response) \<Rightarrow> (metric \<times> bool) list \<Rightarrow> (metric \<times> 'r list) list" where
  "run_steps fetch [] = []"
| "run_steps fetch ((m, has_else) # rest) =
     (case fetch m of
        Thrown \<Rightarrow> []
      | Envelope success rows \<Rightarrow>
          (if success then [(m, rows)] else if has_else then [(m, [])] else [])
          @ run_steps fetch rest)"

definition loadDashboardData :: "(metric \<Rightarrow> 'r response) \<Rightarrow> (metric \<times> 'r list) list" where
  "loadDashboardData fetch = run_steps fetch dashboard_steps"

text \<open>The metrics whose step renders the empty list on a failure envelope.\<close>

definition renders_empty_on_failure :: "metric \<Rightarrow> bool" where
  "renders_empty_on_failure m = ((m, True) \<in> set dashboard_steps)"

section \<open>Chart handles (dashboard.js, the render functions)\<close>

text \<open>
  The four chart variables of the script, \<^verbatim>\<open>let activeUsersChart = null;\<close> and so on,
  each the slot of one canvas.
\<close>

datatype slot = ActiveUsersChart | RequestsChart | EaseComparisonChart | PlanningCoverageChart

text \<open>
  Chart handles are numbered in the order of their creation. The state holds the value of
  each variable (\<open>None\<close> for \<^verbatim>\<open>null\<close>), the charts that have been created and not
  destroyed, each with the slot whose canvas it draws on, and the number of charts created
  so far.
\<close>

record charts =
  var :: "slot \<Rightarrow> nat option"
  live :: "(slot \<times> nat) list"
  created :: nat

definition init_charts :: charts where
  "init_charts = \<lparr>var = (\<lambda>s. None), live = [], created = 0\<rparr>"

text \<open>\<^verbatim>\<open>chart.destroy()\<close>: the chart is live no longer; the variable keeps pointing at it.\<close>

definition chart_destroy :: "nat \<Rightarrow> charts \<Rightarrow> charts" where
  "chart_destroy h st = st\<lparr>live := filter (\<lambda>(s, h'). h' \<noteq> h) (live st)\<rparr>"

text \<open>\<^verbatim>\<open>if (activeUsersChart) { activeUsersChart.destroy(); }\<close>\<close>

definition release :: "slot \<Rightarrow> charts \<Rightarrow> charts" where
  "release s st = (case var st s of None \<Rightarrow> st | Some h \<Rightarrow> chart_destroy h st)"

text \<open>\<^verbatim>\<open>activeUsersChart = new Chart(ctx, {...});\<close>\<close>

definition new_Chart :: "slot \<Rightarrow> charts \<Rightarrow> charts" where
  "new_Chart s st =
     st\<lparr>var := (var st)(s := Some (created st)),
        live := live st @ [(s, created st)],
        created := Suc (created st)\<rparr>"

text \<open>
  The data handed to a renderer of rows: an array, whose elements are rows or
  \<^verbatim>\<open>null\<close>, or a value that is no array (\<^verbatim>\<open>undefined\<close>, \<^verbatim>\<open>null\<close>, an object).
  \<^verbatim>\<open>data.map((item) => item.month)\<close> throws a \<^verbatim>\<open>TypeError\<close> on a value that is no array
  and on an element that is \<^verbatim>\<open>null\<close>.
\<close>

datatype 'r js_rows = NotAnArray | Rows "'r option list"

definition no_null :: "'a option list \<Rightarrow> bool" where
  "no_null xs = list_all (\<lambda>x. x \<noteq> None) xs"

fun rows_readable :: "'r js_rows \<Rightarrow> bool" where
  "rows_readable NotAnArray = False"
| "rows_readable (Rows rs) = no_null rs"

text \<open>
  \<^verbatim>\<open>
  function renderActiveUsersChart(data) {
      const ctx = document.getElementById("activeUsersChart").getContext("2d");
      if (activeUsersChart) { activeUsersChart.destroy(); }
      ...
      const labels = data.map((item) => item.month);
      const values = data.map((item) => item.active_users);
      activeUsersChart = new Chart(ctx, {...});
  }
  \<close>
  The result is the exception thrown, if any, and the state the call leaves. \<open>canvas\<close>
  tells whether the page has the canvas; without it the first line throws. A throw while
  the data are read comes after the old chart has been destroyed.
  \<^verbatim>\<open>renderRequestsChart\<close> is the same function on its own variable and canvas.
\<close>

definition renderActiveUsersChart ::
  "bool \<Rightarrow> 'r js_rows \<Rightarrow> charts \<Rightarrow> js_error option \<times> charts" where
  "renderActiveUsersChart canvas data st =
     (if \<not> canvas then (Some TypeError, st)
      else
        let st1 = release ActiveUsersChart st
        in if rows_readable data then (None, new_Chart ActiveUsersChart st1)
           else (Some TypeError, st1))"

definition renderRequestsChart ::
  "bool \<Rightarrow> 'r js_rows \<Rightarrow> charts \<Rightarrow> js_error option \<times> charts" where
  "renderRequestsChart canvas data st =
     (if \<not> canvas then (Some TypeError, st)
      else
        let st1 = release RequestsChart st
        in if rows_readable data then (None, new_Chart RequestsChart st1)
           else (Some TypeError, st1))"

text \<open>
  \<^verbatim>\<open>
  function renderEaseComparisonChart(data) {
      const ctx = document.getElementById("easeComparisonChart").getContext("2d");
      if (easeComparisonChart) { easeComparisonChart.destroy(); }
      const calcAverage = ...;
      const odooAverage = calcAverage(data.odoo);
      const nasmaAverage = calcAverage(data.nasma);
      ...
      easeComparisonChart = new Chart(ctx, {...});
  }
  \<close>
  The data are \<open>None\<close> when they are \<^verbatim>\<open>undefined\<close> or \<^verbatim>\<open>null\<close> (reading
  \<^verbatim>\<open>data.odoo\<close> throws), and else the two series.
\<close>

definition renderEaseComparisonChart ::
  "bool \<Rightarrow> (series_arg \<times> series_arg) option \<Rightarrow> charts \<Rightarrow> js_error option \<times> charts" where
  "renderEaseComparisonChart canvas data st =
     (if \<not> canvas then (Some TypeError, st)
      else
        let st1 = release EaseComparisonChart st
        in case data of
             None \<Rightarrow> (Some TypeError, st1)
           | Some (data_odoo, data_nasma) \<Rightarrow>
               (case calcAverage data_odoo of
                  Inl e \<Rightarrow> (Some e, st1)
                | Inr odooAverage \<Rightarrow>
                    (case calcAverage data_nasma of
                       Inl e \<Rightarrow> (Some e, st1)
                     | Inr nasmaAverage \<Rightarrow> (None, new_Chart EaseComparisonChart st1))))"

text \<open>A series that \<^verbatim>\<open>calcAverage\<close> reads without a throw.\<close>

fun series_readable :: "series_arg \<Rightarrow> bool" where
  "series_readable SeriesUndefined = True"
| "series_readable SeriesNull = False"
| "series_readable (SeriesArray items) = no_null items"

definition ease_readable :: "(series_arg \<times> series_arg) option \<Rightarrow> bool" where
  "ease_readable data =
     (case data of None \<Rightarrow> False | Some (a, b) \<Rightarrow> series_readable a \<and> series_readable b)"

text \<open>
  \<^verbatim>\<open>let planningCoverageData = { monthly: [], weekly: [] };\<close> Both are arrays
  (\<^verbatim>\<open>loadPlanningCoverage\<close> sees to it); their elements are entries or \<^verbatim>\<open>null\<close>.
\<close>

record 'r planning_data =
  monthly :: "'r option list"
  weekly :: "'r option list"

text \<open>\<^verbatim>\<open>dataset.slice(-limit)\<close>: the last \<open>limit\<close> entries, all of them if there are fewer.\<close>

definition slice_last :: "nat \<Rightarrow> 'a list \<Rightarrow> 'a list" where
  "slice_last limit xs = drop (length xs - limit) xs"

text \<open>
  \<^verbatim>\<open>
  function renderPlanningCoverageChart(view = "monthly") {
      const canvas = document.getElementById("planningCoverageChart");
      if (!canvas) { return; }
      const ctx = canvas.getContext("2d");
      const dataset = planningCoverageData[view] || [];
      const limit = view === "monthly" ? 12 : 20;
      const trimmed = dataset.slice(-limit);
      if (planningCoverageChart) { planningCoverageChart.destroy(); }
      if (!trimmed.length) { return; }
      const labels = trimmed.map((entry) =>
          view === "monthly" ? formatMonthShort(entry.period) : formatWeekLabel(entry.period));
      const values = trimmed.map((entry) => ...);
      planningCoverageChart = new Chart(ctx, {...});
  }
  \<close>
  \<open>canvas\<close> tells whether the page has the canvas; \<open>trimmed_dataset\<close> is the value of
  \<^verbatim>\<open>trimmed\<close>. Reading \<^verbatim>\<open>entry.period\<close> of an element that is \<^verbatim>\<open>null\<close> throws.
\<close>

definition trimmed_dataset :: "'r planning_data \<Rightarrow> string \<Rightarrow> 'r option list" where
  "trimmed_dataset planningCoverageData view =
     (let dataset = (if view = ''monthly'' then monthly planningCoverageData
                     else if view = ''weekly'' then weekly planningCoverageData
                     else []);
          limit = (if view = ''monthly'' then 12 else 20)
      in slice_last limit dataset)"

definition renderPlanningCoverageChart ::
  "bool \<Rightarrow> 'r planning_data \<Rightarrow> string \<Rightarrow> charts \<Rightarrow> js_error option \<times> charts" where
  "renderPlanningCoverageChart canvas planningCoverageData view st =
     (if \<not> canvas then (None, st)
      else
        let trimmed = trimmed_dataset planningCoverageData view;
            st1 = release PlanningCoverageChart st
        in if length trimmed = 0 then (None, st1)
           else if no_null trimmed then (None, new_Chart PlanningCoverageChart st1)
           else (Some TypeError, st1))"

text \<open>
  A render call, and a sequence of them from the loaded page; the page lives on after a
  call that throws.
\<close>

datatype 'r render =
  RenderActiveUsers bool "'r js_rows"
  | RenderRequests bool "'r js_rows"
  | RenderEaseComparison bool "(series_arg \<times> series_arg) option"
  | RenderPlanningCoverage bool "'r planning_data" string

fun render_step :: "'r render \<Rightarrow> charts \<Rightarrow> charts" where
  "render_step (RenderActiveUsers canvas data) st = snd (renderActiveUsersChart canvas data st)"
| "render_step (RenderRequests canvas data) st = snd (renderRequestsChart canvas data st)"
| "render_step (RenderEaseComparison canvas data) st =
     snd (renderEaseComparisonChart canvas data st)"
| "render_step (RenderPlanningCoverage canvas d view) st =
     snd (renderPlanningCoverageChart canvas d view st)"

definition run_renders :: "'r render list \<Rightarrow> charts" where
  "run_renders rs = foldl (\<lambda>st r. render_step r st) init_charts rs"

text \<open>The live charts on the canvas of a slot.\<close>

definition live_on :: "slot \<Rightarrow> charts \<Rightarrow> nat list" where
  "live_on s st = map snd (filter (\<lambda>(s', h). s' = s) (live st))"

text \<open>
  The invariant of the handles: a slot has at most one live chart, a live chart is the one
  its slot's variable points at, and every handle in use has been created.
\<close>

definition chart_inv :: "charts \<Rightarrow> bool" where
  "chart_inv st =
     ((\<forall>s. length (live_on s st) \<le> 1) \<and>
      (\<forall>(s, h) \<in> set (live st). var st s = Some h) \<and>
      (\<forall>s h. var st s = Some h \<longrightarrow> h < created st))"

section \<open>Ease-comparison editor (dashboard.js, showEaseEditor to saveEaseData)\<close>

text \<open>\<^verbatim>\<open>let easeData = { odoo: [], nasma: [] };\<close> A series the server left out is \<open>None\<close>.\<close>

record ease_data =
  odoo :: "ease_entry list option"
  nasma :: "ease_entry list option"

text \<open>
  A row of the editor is a \<^verbatim>\<open>div\<close>. \<^verbatim>\<open>saveEaseData\<close> looks in it for the element with
  the attribute \<^verbatim>\<open>data-period\<close> and the element with the attribute \<^verbatim>\<open>data-value\<close>
  and reads their values; each field of the row is the value of that element, or \<open>None\<close>
  if the row has no such element.
\<close>

record row_div =
  period_input :: "string option"
  value_input :: "string option"

text \<open>
  \<^verbatim>\<open>addEaseDataPoint(type, period = "", value = "", index = null)\<close> builds the row from
  this markup:
  \<^verbatim>\<open>
  div.innerHTML = `
      < input
          type = "text"
          placeholder = "Period (e.g., Week 1)"
          value = "${period}"
          class= "flex-1 px-3 py-2 border rounded"
          data - period
          />
      <input
          type="number"
          step="0.01"
          placeholder="Value (1-10)"
          value="${value}"
          class="w-24 px-3 py-2 border rounded"
          data-value
          min="0"
          max="10"
      />
      <button onclick="removeEaseDataPoint(this)" ...>Remove</button>
  `;
  \<close>
  In HTML a \<^verbatim>\<open><\<close> followed by a space does not open a tag: the first field is text
  of the row, not an element, and nothing in the row has the attribute
  \<^verbatim>\<open>data-period\<close>. The second field is an input holding the text of the value. (The
  period is assumed not to bring markup of its own.)
\<close>

definition addEaseDataPoint :: "string \<Rightarrow> string \<Rightarrow> row_div" where
  "addEaseDataPoint period_text value_text =
     \<lparr>period_input = None, value_input = Some value_text\<rparr>"

text \<open>
  \<^verbatim>\<open>
  function populateEaseEditor(type, data) {
      container.innerHTML = "";
      if (data.length === 0) { addEaseDataPoint(type); }
      else { data.forEach((item, index) => {
                 addEaseDataPoint(type, item.period, item.value, index); }); }
  }
  \<close>
  \<open>show_value\<close> is the text of a value in the template.
\<close>

definition populateEaseEditor :: "(jsnum option \<Rightarrow> string) \<Rightarrow> ease_entry list \<Rightarrow> row_div list" where
  "populateEaseEditor show_value data =
     (if length data = 0 then [addEaseDataPoint [] []]
      else map (\<lambda>item. addEaseDataPoint (period item) (show_value (val item))) data)"

text \<open>What the editor does besides writing its state, in order.\<close>

datatype ease_effect =
  EasePost ease_data | EaseRender ease_data | EaseAlert string | EaseConsoleError

record ease_page =
  easeData :: ease_data
  modal_hidden :: bool
  odooDataContainer :: "row_div list"
  nasmaDataContainer :: "row_div list"
  ease_log :: "ease_effect list"

text \<open>
  \<^verbatim>\<open>
  function showEaseEditor() {
      modal.classList.remove("hidden");
      populateEaseEditor("odoo", easeData.odoo || []);
      populateEaseEditor("nasma", easeData.nasma || []);
  }
  \<close>
\<close>

definition or_empty :: "'a list option \<Rightarrow> 'a list" where
  "or_empty xs = (case xs of None \<Rightarrow> [] | Some ys \<Rightarrow> ys)"

definition showEaseEditor :: "(jsnum option \<Rightarrow> string) \<Rightarrow> ease_page \<Rightarrow> ease_page" where
  "showEaseEditor show_value st =
     st\<lparr>modal_hidden := False,
        odooDataContainer := populateEaseEditor show_value (or_empty (odoo (easeData st))),
        nasmaDataContainer := populateEaseEditor show_value (or_empty (nasma (easeData st)))\<rparr>"

text \<open>\<^verbatim>\<open>removeEaseDataPoint(button)\<close> takes the row of the button out of its container.\<close>

definition removeEaseDataPoint :: "nat \<Rightarrow> row_div list \<Rightarrow> row_div list" where
  "removeEaseDataPoint i rows = take i rows @ drop (Suc i) rows"

text \<open>
  The loop over the rows of one container:
  \<^verbatim>\<open>
  odooInputs.forEach((div) => {
      const period = div.querySelector('[data-period]').value;
      const value = parseFloat(div.querySelector('[data-value]').value);
      if (period && !isNaN(value)) { odooData.push({ period: period, value: value }); }
  });
  \<close>
  Reading \<^verbatim>\<open>.value\<close> of an element that is not there throws a \<^verbatim>\<open>TypeError\<close>.
  \<^verbatim>\<open>parseFloat\<close> is a parameter.
\<close>

fun collectRows :: "(string \<Rightarrow> jsnum) \<Rightarrow> row_div list \<Rightarrow> js_error + ease_entry list" where
  "collectRows parseFloat [] = Inr []"
| "collectRows parseFloat (d # ds) =
     (case period_input d of
        None \<Rightarrow> Inl TypeError
      | Some p \<Rightarrow>
          (case value_input d of
             None \<Rightarrow> Inl TypeError
           | Some v \<Rightarrow>
               (case collectRows parseFloat ds of
                  Inl e \<Rightarrow> Inl e
                | Inr rest \<Rightarrow>
                    Inr ((if p \<noteq> [] \<and> \<not> js_isNaN (parseFloat v)
                          then [\<lparr>period = p, val = Some (parseFloat v)\<rparr>] else []) @ rest))))"

text \<open>The answer to the POST: a throw of \<^verbatim>\<open>fetch\<close> or \<^verbatim>\<open>response.json()\<close>, or an
  envelope with its \<^verbatim>\<open>success\<close> flag and its \<^verbatim>\<open>error\<close> text.\<close>

datatype save_response = SaveThrown | SaveEnvelope bool string

text \<open>
  \<^verbatim>\<open>
  async function saveEaseData() {
      ... the two loops, outside the try block ...
      try {
          const response = await fetch("/api/ease-comparison", { method: "POST", ...,
              body: JSON.stringify({ odoo: odooData, nasma: nasmaData }) });
          const data = await response.json();
          if (data.success) {
              easeData = { odoo: odooData, nasma: nasmaData };
              renderEaseComparisonChart(easeData);
              hideEaseEditor();
              alert("Ease comparison data saved successfully!");
          } else {
              alert("Failed to save ease comparison data: " + data.error);
          }
      } catch (error) {
          console.error("Error saving ease comparison data:", error);
          alert("Error saving ease comparison data");
      }
  }
  \<close>
  The result is \<open>Inl\<close> when the function throws (its promise is rejected), with the page
  as it was.
\<close>

definition saveEaseData ::
  "(string \<Rightarrow> jsnum) \<Rightarrow> (ease_data \<Rightarrow> save_response) \<Rightarrow> ease_page \<Rightarrow> js_error + ease_page" where
  "saveEaseData parseFloat server st =
     (case collectRows parseFloat (odooDataContainer st) of
        Inl e \<Rightarrow> Inl e
      | Inr odooData \<Rightarrow>
          (case collectRows parseFloat (nasmaDataContainer st) of
             Inl e \<Rightarrow> Inl e
           | Inr nasmaData \<Rightarrow>
               let body = \<lparr>odoo = Some odooData, nasma = Some nasmaData\<rparr>;
                   st1 = st\<lparr>ease_log := ease_log st @ [EasePost body]\<rparr>
               in Inr (case server body of
                         SaveThrown \<Rightarrow>
                           st1\<lparr>ease_log := ease_log st1 @
                                 [EaseConsoleError, EaseAlert ''Error saving ease comparison data'']\<rparr>
                       | SaveEnvelope success err \<Rightarrow>
                           if success
                           then st1\<lparr>easeData := body, modal_hidden := True,
                                    ease_log := ease_log st1 @
                                      [EaseRender body,
                                       EaseAlert ''Ease comparison data saved successfully!'']\<rparr>
                           else st1\<lparr>ease_log := ease_log st1 @
                                      [EaseAlert (''Failed to save ease comparison data: '' @ err)]\<rparr>)))"

text \<open>A row that has both of its inputs.\<close>

definition well_formed_row :: "row_div \<Rightarrow> bool" where
  "well_formed_row d = (period_input d \<noteq> None \<and> value_input d \<noteq> None)"

text \<open>The rows of a container that the save keeps, and the entry each becomes.\<close>

definition kept_row :: "(string \<Rightarrow> jsnum) \<Rightarrow> row_div \<Rightarrow> bool" where
  "kept_row parseFloat d =
     (the (period_input d) \<noteq> [] \<and> parseFloat (the (value_input d)) \<noteq> NaN)"

definition row_entry :: "(string \<Rightarrow> jsnum) \<Rightarrow> row_div \<Rightarrow> ease_entry" where
  "row_entry parseFloat d =
     \<lparr>period = the (period_input d), val = Some (parseFloat (the (value_input d)))\<rparr>"

section \<open>Results\<close>

subsection \<open>Filter state\<close>

text \<open>
  The apply action in terms of the texts of the two inputs: it is refused when both are
  filled and the start text is the greater in the comparison of strings.
\<close>

lemma applyFilters_text_order:
  "(startInput \<noteq> [] \<and> endInput \<noteq> [] \<and> js_string_gt startInput endInput \<longrightarrow>
      dashboardFilters (applyFilters startInput endInput p) = dashboardFilters p \<and>
      effects (applyFilters startInput endInput p) =
        effects p @ [Alert ''Start date must be before end date.'']) \<and>
   (\<not> (startInput \<noteq> [] \<and> endInput \<noteq> [] \<and> js_string_gt startInput endInput) \<longrightarrow>
      dashboardFilters (applyFilters startInput endInput p) =
        \<lparr>fstart = or_null startInput, fend = or_null endInput\<rparr> \<and>
      effects (applyFilters startInput endInput p) =
        effects p @ [UpdateFilterLabel, LoadDashboardData])"
  by (auto simp: applyFilters_def or_null_def)

subsection \<open>Duration text\<close>

lemma show_nat_small: "n < 10 \<Longrightarrow> show_nat n = [digit_char n]"
  by (simp add: show_nat.simps)

lemma show_nat_large:
  "10 \<le> n \<Longrightarrow> show_nat n = show_nat (n div 10) @ [digit_char (n mod 10)]"
  by (subst show_nat.simps) simp

lemma js_rem_pos_int:
  assumes "0 \<le> r" "0 < k"
  shows "js_rem_pos (Fin (of_int r)) (of_int k) = Fin (of_int (r mod k))"
proof -
  have "\<lfloor>(of_int r :: rat) / of_int k\<rfloor> = r div k"
    by (simp add: floor_divide_of_int_eq)
  moreover have "r - k * (r div k) = r mod k"
    by (simp add: minus_mult_div_eq_mod)
  ultimately show ?thesis
    using assms by (simp flip: of_int_mult of_int_diff)
qed

lemma js_floor_div_int:
  "js_floor (js_div_pos (Fin (of_int r)) (of_int k)) = Fin (of_int (r div k))"
  by (simp add: floor_divide_of_int_eq)

lemma js_to_string_int:
  "0 \<le> r \<Longrightarrow> js_to_string (Fin (of_int r)) = show_nat (nat r)"
  by simp

lemma js_truthy_int: "js_truthy (Fin (of_int r)) = (r \<noteq> 0)"
  by simp

text \<open>
  A positive finite duration, rounded to whole seconds \<open>r\<close>, is written with its hours
  and minutes; the seconds are written when there are no hours.
\<close>

lemma formatDuration_positive:
  fixes x :: rat
  assumes "0 < x"
  defines "r \<equiv> \<lfloor>x + 1 / 2\<rfloor>"
  defines "h \<equiv> r div 3600" and "m \<equiv> (r mod 3600) div 60" and "s \<equiv> r mod 60"
  shows "formatDurationDisplay (Num (Fin x)) =
     (if h \<noteq> 0
      then show_nat (nat h) @ ''h'' @ (if m \<noteq> 0 then '' '' @ show_nat (nat m) @ ''m'' else [])
      else if m \<noteq> 0
      then show_nat (nat m) @ ''m'' @ (if s \<noteq> 0 then '' '' @ show_nat (nat s) @ ''s'' else [])
      else show_nat (nat s) @ ''s'')"
proof -
  have r0: "0 \<le> r" using assms(1) unfolding r_def by simp
  have h0: "0 \<le> h" and m0: "0 \<le> m" and s0: "0 \<le> s"
    using r0 unfolding h_def m_def s_def by (simp_all add: pos_imp_zdiv_nonneg_iff)
  have rnd: "js_round (Fin x) = Fin (of_int r)" by (simp add: r_def)
  have hh: "js_floor (js_div_pos (Fin (of_int r)) 3600) = Fin (of_int h)"
    using js_floor_div_int [of r 3600] by (simp add: h_def)
  have r1: "js_rem_pos (Fin (of_int r)) 3600 = Fin (of_int (r mod 3600))"
    using js_rem_pos_int [of r 3600] r0 by simp
  have mm: "js_floor (js_div_pos (Fin (of_int (r mod 3600))) 60) = Fin (of_int m)"
    using js_floor_div_int [of "r mod 3600" 60] by (simp add: m_def)
  have ss: "js_rem_pos (Fin (of_int r)) 60 = Fin (of_int s)"
    using js_rem_pos_int [of r 60] r0 by (simp add: s_def)
  have small: "h = 0 \<Longrightarrow> m = 0 \<Longrightarrow> s = r"
  proof -
    assume a: "h = 0" "m = 0"
    from a(1) r0 have "r < 3600" unfolding h_def
      by (simp add: div_eq_0_iff)
    then have "r mod 3600 = r" using r0 by simp
    with a(2) have "r < 60" using r0 unfolding m_def by (simp add: div_eq_0_iff)
    then show "s = r" using r0 unfolding s_def by simp
  qed
  have x: "\<not> (js_isNaN (Fin x) \<or> js_le_zero (Fin x))"
    using assms(1) by (simp add: js_isNaN_def)
  show ?thesis
    unfolding formatDurationDisplay_def jsval.case if_not_P [OF x] rnd Let_def hh r1 mm ss
      js_truthy_int
    using h0 m0 s0 r0 small
    by (auto simp: js_to_string_int simp del: js_to_string.simps)
qed

text \<open>
  C8, as the script has it. A duration that is absent, not of type number, not-a-number
  or not positive is written as the dash. A positive finite duration, rounded to whole
  seconds, is written as its hours and minutes, each left out when zero; the seconds are
  written whenever the duration has no full hour (and alone, as \<^verbatim>\<open>0s\<close>, when it rounds
  to nothing), not only under one minute.
\<close>

theorem formatDurationDisplay_amended:
  "formatDurationDisplay Undefined = ''-'' \<and>
   formatDurationDisplay Null = ''-'' \<and>
   formatDurationDisplay (Str t) = ''-'' \<and>
   formatDurationDisplay (Num NaN) = ''-'' \<and>
   formatDurationDisplay (Num NegInf) = ''-'' \<and>
   (y \<le> 0 \<longrightarrow> formatDurationDisplay (Num (Fin y)) = ''-'') \<and>
   (0 < x \<longrightarrow>
      formatDurationDisplay (Num (Fin x)) =
        (let r = \<lfloor>x + 1 / 2\<rfloor>; h = r div 3600; m = (r mod 3600) div 60; s = r mod 60 in
         if h \<noteq> 0
         then show_nat (nat h) @ ''h'' @
              (if m \<noteq> 0 then '' '' @ show_nat (nat m) @ ''m'' else [])
         else if m \<noteq> 0
         then show_nat (nat m) @ ''m'' @
              (if s \<noteq> 0 then '' '' @ show_nat (nat s) @ ''s'' else [])
         else show_nat (nat s) @ ''s''))"
proof -
  have "0 < x \<Longrightarrow> ?thesis"
    using formatDuration_positive [of x]
    by (simp add: formatDurationDisplay_def js_isNaN_def Let_def)
  moreover have "\<not> 0 < x \<Longrightarrow> ?thesis"
    by (simp add: formatDurationDisplay_def js_isNaN_def)
  ultimately show ?thesis by blast
qed

theorem formatDurationDisplay_amended_witness:
  "formatDurationDisplay (Num (Fin 0)) = ''-'' \<and>
   formatDurationDisplay (Num (Fin (- 5))) = ''-'' \<and>
   formatDurationDisplay (Num (Fin 3661)) = ''1h 1m'' \<and>
   formatDurationDisplay (Num (Fin 45)) = ''45s'' \<and>
   formatDurationDisplay (Num (Fin 3600)) = ''1h''"
proof -
  have f: "\<lfloor>(3661::rat) + 1 / 2\<rfloor> = 3661" "\<lfloor>(45::rat) + 1 / 2\<rfloor> = 45"
    "\<lfloor>(3600::rat) + 1 / 2\<rfloor> = 3600"
    by (simp_all add: floor_eq_iff)
  show ?thesis
    using f formatDurationDisplay_amended [of undefined 0 3661]
      formatDurationDisplay_amended [of undefined "- 5" 45]
      formatDurationDisplay_amended [of undefined 0 3600]
    by (simp add: show_nat_small show_nat_large digit_char_def)
qed

text \<open>
  Ninety seconds are a minute and a half: the seconds are written although the duration
  is not under one minute.
\<close>

theorem formatDurationDisplay_counterexample:
  "formatDurationDisplay (Num (Fin 90)) = ''1m 30s''"
  by code_simp

text \<open>The infinite duration passes the guard of the function and is not written as the dash.\<close>

lemma formatDurationDisplay_infinity:
  "formatDurationDisplay (Num PosInf) = ''Infinityh''"
  by code_simp

subsection \<open>Ease-comparison average\<close>








subsection \<open>The order of date texts\<close>

lemma js_string_gt_append:
  "length a = length a' \<Longrightarrow>
   js_string_gt (a @ b) (a' @ b') = (js_string_gt a a' \<or> (a = a' \<and> js_string_gt b b'))"
  by (induction a a' rule: list_induct2) auto

lemma js_string_gt_irrefl: "\<not> js_string_gt a a"
  by (induction a) auto

lemma digit_char_codes: "\<forall>i \<in> set [0..<10]. (of_char (digit_char i) :: nat) = 48 + i"
  by code_simp

lemma of_char_digit: "i < 10 \<Longrightarrow> (of_char (digit_char i) :: nat) = 48 + i"
  using digit_char_codes by simp

lemma digit_char_inj:
  assumes "i < 10" "j < 10"
  shows "digit_char i = digit_char j \<longleftrightarrow> i = j"
proof
  assume "digit_char i = digit_char j"
  then have "(of_char (digit_char i) :: nat) = of_char (digit_char j)"
    by (rule arg_cong)
  then show "i = j"
    unfolding of_char_digit [OF assms(1)] of_char_digit [OF assms(2)] by simp
next
  assume "i = j"
  then show "digit_char i = digit_char j" by (rule arg_cong)
qed

lemma digit_char_0: "digit_char 0 = CHR ''0''"
  by (simp add: digit_char_def)

lemma pad_nat_one: "n < 10 \<Longrightarrow> pad_nat 1 n = [digit_char n]"
  by (simp add: pad_nat_def show_nat_small)

lemma pad_nat_Suc:
  assumes "1 \<le> w"
  shows "pad_nat (Suc w) n = pad_nat w (n div 10) @ [digit_char (n mod 10)]"
proof (cases "n < 10")
  case True
  then have "pad_nat w (n div 10) = replicate w (CHR ''0'')"
    using assms
    by (simp add: pad_nat_def show_nat_small digit_char_0 replicate_append_same
        flip: replicate_Suc)
  then show ?thesis
    using True by (simp add: pad_nat_def show_nat_small)
next
  case False
  then show ?thesis
    by (simp add: pad_nat_def show_nat_large Suc_diff_le)
qed

lemma pad_nat_order:
  "1 \<le> w \<Longrightarrow> a < 10 ^ w \<Longrightarrow> b < 10 ^ w \<Longrightarrow>
   length (pad_nat w a) = w \<and>
   (pad_nat w a = pad_nat w b \<longleftrightarrow> a = b) \<and>
   (js_string_gt (pad_nat w a) (pad_nat w b) \<longleftrightarrow> b < a)"
proof (induction w arbitrary: a b)
  case 0
  then show ?case by simp
next
  case (Suc w)
  show ?case
  proof (cases "w = 0")
    case True
    then have "a < 10" "b < 10" using Suc.prems by simp_all
    then show ?thesis
      using True by (auto simp: pad_nat_one [unfolded One_nat_def] of_char_digit digit_char_inj)
  next
    case False
    then have w: "1 \<le> w" by simp
    have d: "a div 10 < 10 ^ w" "b div 10 < 10 ^ w"
      using Suc.prems by (simp_all add: less_mult_imp_div_less mult.commute)
    have m: "a mod 10 < 10" "b mod 10 < 10" by simp_all
    note IH = Suc.IH [OF w d] Suc.IH [OF w d(1) d(1)] Suc.IH [OF w d(2) d(2)]
    have len: "length (pad_nat w (a div 10)) = length (pad_nat w (b div 10))"
      using IH by simp
    define qa ra qb rb where "qa = a div 10" and "ra = a mod 10" and "qb = b div 10"
      and "rb = b mod 10"
    have split: "a = 10 * qa + ra" "b = 10 * qb + rb" "ra < 10" "rb < 10"
      by (simp_all add: qa_def ra_def qb_def rb_def)
    have "(qa = qb \<and> ra = rb) \<longleftrightarrow> 10 * qa + ra = 10 * qb + rb"
      using split(3,4) by arith
    then have eq: "(a div 10 = b div 10 \<and> a mod 10 = b mod 10) \<longleftrightarrow> a = b"
      unfolding qa_def ra_def qb_def rb_def by simp
    have "(qb < qa \<or> (qa = qb \<and> rb < ra)) \<longleftrightarrow> 10 * qb + rb < 10 * qa + ra"
      using split(3,4) by arith
    then have lt: "(b div 10 < a div 10 \<or> (a div 10 = b div 10 \<and> b mod 10 < a mod 10)) \<longleftrightarrow> b < a"
      unfolding qa_def ra_def qb_def rb_def by simp
    show ?thesis
      unfolding pad_nat_Suc [OF w] js_string_gt_append [OF len]
      using IH(1) m eq lt
      by (auto simp: of_char_digit digit_char_inj)
  qed
qed

text \<open>
  On the values of date inputs with four-digit years the comparison of the texts is the
  comparison of the dates.
\<close>

lemma js_string_gt_iso_date:
  assumes "y < 10000" "y' < 10000" "m < 100" "m' < 100" "d < 100" "d' < 100"
  shows "js_string_gt (iso_date y m d) (iso_date y' m' d') \<longleftrightarrow>
           (y' < y \<or> (y' = y \<and> (m' < m \<or> (m' = m \<and> d' < d))))"
proof -
  have Y: "length (pad_nat 4 y) = 4" "length (pad_nat 4 y') = 4"
    "pad_nat 4 y = pad_nat 4 y' \<longleftrightarrow> y = y'"
    "js_string_gt (pad_nat 4 y) (pad_nat 4 y') \<longleftrightarrow> y' < y"
    using pad_nat_order [of 4 y y'] pad_nat_order [of 4 y' y'] assms by simp_all
  have M: "length (pad_nat 2 m) = 2" "length (pad_nat 2 m') = 2"
    "pad_nat 2 m = pad_nat 2 m' \<longleftrightarrow> m = m'"
    "js_string_gt (pad_nat 2 m) (pad_nat 2 m') \<longleftrightarrow> m' < m"
    using pad_nat_order [of 2 m m'] pad_nat_order [of 2 m' m'] assms by simp_all
  have D: "js_string_gt (pad_nat 2 d) (pad_nat 2 d') \<longleftrightarrow> d' < d"
    using pad_nat_order [of 2 d d'] assms by simp
  have 1: "js_string_gt (pad_nat 2 m @ ''-'' @ pad_nat 2 d) (pad_nat 2 m' @ ''-'' @ pad_nat 2 d')
             \<longleftrightarrow> (m' < m \<or> (m' = m \<and> d' < d))"
    using js_string_gt_append [of "pad_nat 2 m" "pad_nat 2 m'" "''-'' @ pad_nat 2 d"
        "''-'' @ pad_nat 2 d'"] M D
    by auto
  have "js_string_gt (iso_date y m d) (iso_date y' m' d') \<longleftrightarrow>
          js_string_gt (pad_nat 4 y) (pad_nat 4 y') \<or>
          (pad_nat 4 y = pad_nat 4 y' \<and>
           js_string_gt (''-'' @ pad_nat 2 m @ ''-'' @ pad_nat 2 d)
                        (''-'' @ pad_nat 2 m' @ ''-'' @ pad_nat 2 d'))"
    unfolding iso_date_def using js_string_gt_append [of "pad_nat 4 y" "pad_nat 4 y'"] Y by simp
  then show ?thesis
    using Y 1 by auto
qed

lemma iso_date_not_empty: "iso_date y m d \<noteq> []"
  by (simp add: iso_date_def)

text \<open>
  So for two dates the apply action is refused exactly when the start date is the later
  one.
\<close>

lemma applyFilters_iso_dates:
  assumes "y < 10000" "y' < 10000" "m < 100" "m' < 100" "d < 100" "d' < 100"
  shows "applyFilters (iso_date y m d) (iso_date y' m' d') p =
           (if y' < y \<or> (y' = y \<and> (m' < m \<or> (m' = m \<and> d' < d)))
            then p\<lparr>effects := effects p @ [Alert ''Start date must be before end date.'']\<rparr>
            else p\<lparr>dashboardFilters :=
                     \<lparr>fstart = Some (iso_date y m d), fend = Some (iso_date y' m' d')\<rparr>,
                   effects := effects p @ [UpdateFilterLabel, LoadDashboardData]\<rparr>)"
  unfolding js_string_gt_iso_date [OF assms, symmetric]
  by (simp add: applyFilters_def or_null_def iso_date_not_empty)

text \<open>
  C2, as the script has it. For date fields whose years have at most four digits: when
  both hold a date and the start date is the later one, applying the filter leaves
  \<^verbatim>\<open>dashboardFilters\<close> as it was, shows the validation message and starts no
  refresh; in every other case, an empty field included, the pair is stored (an empty
  field as \<^verbatim>\<open>null\<close>) and \<^verbatim>\<open>loadDashboardData\<close> is called.
\<close>

theorem applyFilters_dates:
  assumes "four_digit_field s" and "four_digit_field e"
  shows "(start_after_end s e \<longrightarrow>
            dashboardFilters (applyFilters (date_input_value s) (date_input_value e) p) =
              dashboardFilters p \<and>
            effects (applyFilters (date_input_value s) (date_input_value e) p) =
              effects p @ [Alert ''Start date must be before end date.'']) \<and>
         (\<not> start_after_end s e \<longrightarrow>
            dashboardFilters (applyFilters (date_input_value s) (date_input_value e) p) =
              \<lparr>fstart = map_option (\<lambda>(y, m, d). iso_date y m d) s,
               fend = map_option (\<lambda>(y, m, d). iso_date y m d) e\<rparr> \<and>
            effects (applyFilters (date_input_value s) (date_input_value e) p) =
              effects p @ [UpdateFilterLabel, LoadDashboardData])"
proof -
  have none: "date_input_value None = []"
    by (simp add: date_input_value_def)
  have some: "date_input_value (Some (y, m, d)) = iso_date y m d" for y m d
    by (simp add: date_input_value_def)
  show ?thesis
  proof (cases s)
    case None
    show ?thesis
    proof (cases e)
      case e: None
      show ?thesis
        unfolding None e none
        by (simp add: applyFilters_def or_null_def start_after_end_def)
    next
      case e: (Some b)
      obtain y' m' d' where b: "b = (y', m', d')" by (cases b)
      show ?thesis
        unfolding None e b none some
        by (simp add: applyFilters_def or_null_def start_after_end_def iso_date_not_empty)
    qed
  next
    case s: (Some a)
    obtain y m d where a: "a = (y, m, d)" by (cases a)
    show ?thesis
    proof (cases e)
      case e: None
      show ?thesis
        unfolding s e a none some
        by (simp add: applyFilters_def or_null_def start_after_end_def iso_date_not_empty)
    next
      case e: (Some b)
      obtain y' m' d' where b: "b = (y', m', d')" by (cases b)
      have r: "y < 10000" "y' < 10000" "m < 100" "m' < 100" "d < 100" "d' < 100"
        using assms s e a b by (simp_all add: four_digit_field_def four_digit_date_def)
      show ?thesis
        unfolding s e a b some
        by (simp add: start_after_end_def date_later_def applyFilters_iso_dates [OF r])
    qed
  qed
qed

theorem applyFilters_dates_witness:
  "dashboardFilters (applyFilters (date_input_value (Some (2024, 3, 10)))
       (date_input_value (Some (2024, 3, 2)))
       \<lparr>dashboardFilters = \<lparr>fstart = None, fend = None\<rparr>, effects = []\<rparr>) =
     \<lparr>fstart = None, fend = None\<rparr> \<and>
   effects (applyFilters (date_input_value (Some (2024, 3, 10)))
       (date_input_value (Some (2024, 3, 2)))
       \<lparr>dashboardFilters = \<lparr>fstart = None, fend = None\<rparr>, effects = []\<rparr>) =
     [Alert ''Start date must be before end date.''] \<and>
   dashboardFilters (applyFilters (date_input_value (Some (2024, 3, 2)))
       (date_input_value None)
       \<lparr>dashboardFilters = \<lparr>fstart = None, fend = None\<rparr>, effects = []\<rparr>) =
     \<lparr>fstart = Some (iso_date 2024 3 2), fend = None\<rparr> \<and>
   effects (applyFilters (date_input_value (Some (2024, 3, 2)))
       (date_input_value None)
       \<lparr>dashboardFilters = \<lparr>fstart = None, fend = None\<rparr>, effects = []\<rparr>) =
     [UpdateFilterLabel, LoadDashboardData] \<and>
   iso_date 2024 3 2 = ''2024-03-02''"
proof -
  have f: "four_digit_field (Some (2024, 3, 10))" "four_digit_field (Some (2024, 3, 2))"
    "four_digit_field None"
    by (simp_all add: four_digit_field_def four_digit_date_def)
  have i: "iso_date 2024 3 2 = ''2024-03-02''"
    by (simp add: iso_date_def pad_nat_def show_nat_small show_nat_large digit_char_def)
  show ?thesis
    using applyFilters_dates [OF f(1) f(2),
            of "\<lparr>dashboardFilters = \<lparr>fstart = None, fend = None\<rparr>, effects = []\<rparr>"]
      applyFilters_dates [OF f(2) f(3),
            of "\<lparr>dashboardFilters = \<lparr>fstart = None, fend = None\<rparr>, effects = []\<rparr>"]
    by (simp add: start_after_end_def date_later_def i)
qed

text \<open>
  The first day of the year 10000 is later than the last day of the year 9999, but its
  text begins with the smaller character: the inverted range is stored and the refresh
  starts.
\<close>

theorem applyFilters_counterexample:
  "date_input_value (Some (10000, 1, 1)) = ''10000-01-01'' \<and>
   date_input_value (Some (9999, 12, 31)) = ''9999-12-31'' \<and>
   date_later (10000, 1, 1) (9999, 12, 31) \<and>
   dashboardFilters (applyFilters ''10000-01-01'' ''9999-12-31''
       \<lparr>dashboardFilters = \<lparr>fstart = None, fend = None\<rparr>, effects = []\<rparr>) =
     \<lparr>fstart = Some ''10000-01-01'', fend = Some ''9999-12-31''\<rparr> \<and>
   effects (applyFilters ''10000-01-01'' ''9999-12-31''
       \<lparr>dashboardFilters = \<lparr>fstart = None, fend = None\<rparr>, effects = []\<rparr>) =
     [UpdateFilterLabel, LoadDashboardData]"
proof -
  have a: "date_input_value (Some (10000, 1, 1)) = ''10000-01-01''"
    "date_input_value (Some (9999, 12, 31)) = ''9999-12-31''"
    by (simp_all add: date_input_value_def iso_date_def pad_nat_def show_nat_small
        show_nat_large digit_char_def)
  have b: "date_later (10000, 1, 1) (9999, 12, 31)"
    by (simp add: date_later_def)
  have c: "\<not> js_string_gt ''10000-01-01'' ''9999-12-31''"
    by simp
  show ?thesis
    using a b c by (simp add: applyFilters_def or_null_def)
qed

subsection \<open>Calendar facts\<close>

lemma year_of_era_check:
  "\<forall>yoe \<in> set [0..399::int].
     (let doe = yoe * 365 + yoe div 4 - yoe div 100 + 309 in
      doe < 146097 \<and> (doe - doe div 1460 + doe div 36524 - doe div 146096) div 365 = yoe)"
  by code_simp

text \<open>The fourth of January is read back from its day number, in every year.\<close>

lemma civil_jan4: "civil_from_days (days_from_civil y 1 4) = (y, 1, 4)"
proof -
  define era where "era = (y - 1) div 400"
  define yoe where "yoe = (y - 1) - era * 400"
  define doe where "doe = yoe * 365 + yoe div 4 - yoe div 100 + 309"
  have yoe_mod: "yoe = (y - 1) mod 400"
    unfolding yoe_def era_def by (simp add: minus_div_mult_eq_mod)
  then have range: "0 \<le> yoe" "yoe \<le> 399" by simp_all
  then have "yoe \<in> set [0..399]" by simp
  with year_of_era_check have chk: "doe < 146097"
    "(doe - doe div 1460 + doe div 36524 - doe div 146096) div 365 = yoe"
    unfolding doe_def Let_def by blast+
  have doe0: "0 \<le> doe" using range unfolding doe_def by linarith
  have z: "days_from_civil y 1 4 + 719468 = era * 146097 + doe"
    by (simp add: days_from_civil_def Let_def era_def yoe_def doe_def)
  have e: "(era * 146097 + doe) div 146097 = era"
    using doe0 chk(1) by (simp add: div_pos_pos_trivial)
  have doy: "doe - (365 * yoe + yoe div 4 - yoe div 100) = 309"
    unfolding doe_def by simp
  have y: "yoe + era * 400 + 1 = y" unfolding yoe_def by simp
  show ?thesis
    unfolding civil_from_days_def z Let_def e
    by (simp add: chk(2) doy y)
qed

lemma days_from_civil_day: "days_from_civil y m d = days_from_civil y m 1 + d - 1"
  by (simp add: days_from_civil_def Let_def)

lemma midnight_div: "(D * msPerDay) div msPerDay = D" and midnight_mod: "(D * msPerDay) mod msPerDay = 0"
  by (simp_all add: msPerDay_def)

subsection \<open>Week labels\<close>

text \<open>The day number of \<^verbatim>\<open>startDate\<close> when it is formatted.\<close>

lemma week_start_day:
  fixes year week :: int
  defines "J \<equiv> days_from_civil (full_year year) 1 4"
  shows "week_start year week =
           (J - (if (J + 4) mod 7 = 0 then 7 else (J + 4) mod 7) + 1 + (week - 1) * 7) * msPerDay"
proof -
  have a: "Date_UTC year 0 4 = J * msPerDay"
    by (simp add: Date_UTC_def J_def)
  have b: "days_from_civil (full_year year) 1 1 = J - 3"
    unfolding J_def by (subst (2) days_from_civil_day) simp
  show ?thesis
    unfolding week_start_def a Let_def getUTCDay_def getUTCDate_def setUTCDate_def
      midnight_div midnight_mod
    by (simp add: J_def [symmetric] civil_jan4 [of "full_year year", folded J_def] b)
qed

text \<open>
  In UTC the date that is formatted is midnight of the Monday of the ISO week: a Monday,
  whole weeks after the Monday of the week that holds the fourth of January.
\<close>

lemma week_start_monday:
  "getUTCDay (week_start year week) = 1"
  "week_start year week mod msPerDay = 0"
  "week_start year week = week_start year 1 + (week - 1) * 7 * msPerDay"
  "week_start year 1 div msPerDay \<le> days_from_civil (full_year year) 1 4"
  "days_from_civil (full_year year) 1 4 \<le> week_start year 1 div msPerDay + 6"
proof -
  define J where "J = days_from_civil (full_year year) 1 4"
  define w where "w = (if (J + 4) mod 7 = 0 then 7 else (J + 4) mod 7)"
  have ws: "week_start year k = (J - w + 1 + (k - 1) * 7) * msPerDay" for k
    unfolding J_def w_def by (rule week_start_day)
  define r where "r = (J + 4) mod 7"
  have "0 \<le> r" "r < 7" unfolding r_def by simp_all
  then have "1 \<le> (if r = 0 then 7 else r)" "(if r = 0 then 7 else r) \<le> 7"
    by (cases "r = 0"; simp)+
  then have w_range: "1 \<le> w" "w \<le> 7"
    unfolding w_def r_def .
  have w_mod: "(J + 4 - w) mod 7 = 0"
    unfolding w_def by presburger
  show "getUTCDay (week_start year week) = 1"
  proof -
    obtain q where q: "J + 4 - w = 7 * q"
      using w_mod by (auto simp: mod_eq_0_iff_dvd elim: dvdE)
    have "J - w + 1 + (week - 1) * 7 + 4 = (J + 4 - w) + 1 + (week - 1) * 7"
      by simp
    also have "\<dots> = 1 + 7 * (q + week - 1)"
      unfolding q by (simp add: algebra_simps)
    finally have e: "J - w + 1 + (week - 1) * 7 + 4 = 1 + 7 * (q + week - 1)" .
    have "(J - w + 1 + (week - 1) * 7 + 4) mod 7 = 1"
      unfolding e by (simp only: mod_mult_self2) simp
    then show ?thesis
      unfolding getUTCDay_def ws midnight_div .
  qed
  show "week_start year week mod msPerDay = 0"
    unfolding ws by (rule midnight_mod)
  show "week_start year week = week_start year 1 + (week - 1) * 7 * msPerDay"
    unfolding ws by (simp add: algebra_simps)
  show "week_start year 1 div msPerDay \<le> days_from_civil (full_year year) 1 4"
    unfolding ws midnight_div J_def [symmetric] using w_range by simp
  show "days_from_civil (full_year year) 1 4 \<le> week_start year 1 div msPerDay + 6"
    unfolding ws midnight_div J_def [symmetric] using w_range by simp
qed

text \<open>
  The label shows the local date of that UTC midnight: the Monday itself where local
  time is level with or ahead of UTC, the Sunday before it where local time is behind.
\<close>

lemma local_day_of_midnight:
  assumes "t mod msPerDay = 0"
  shows "0 \<le> tz \<Longrightarrow> tz < 1440 \<Longrightarrow> local_time tz t div msPerDay = t div msPerDay"
    and "- 1440 \<le> tz \<Longrightarrow> tz < 0 \<Longrightarrow> local_time tz t div msPerDay = t div msPerDay - 1"
proof -
  obtain D where t: "t = D * 86400000"
    using assms by (auto simp: msPerDay_def elim: dvdE simp: mod_eq_0_iff_dvd mult.commute)
  show "0 \<le> tz \<Longrightarrow> tz < 1440 \<Longrightarrow> local_time tz t div msPerDay = t div msPerDay"
    unfolding local_time_def msPerDay_def t
    by (simp add: div_pos_pos_trivial)
  show "- 1440 \<le> tz \<Longrightarrow> tz < 0 \<Longrightarrow> local_time tz t div msPerDay = t div msPerDay - 1"
  proof -
    assume a: "- 1440 \<le> tz" "tz < 0"
    have "D * 86400000 + tz * 60000 = (D - 1) * 86400000 + (86400000 + tz * 60000)"
      by (simp add: algebra_simps)
    moreover have "0 \<le> 86400000 + tz * 60000" "86400000 + tz * 60000 < 86400000"
      using a by simp_all
    ultimately show ?thesis
      unfolding local_time_def msPerDay_def t
      by (simp add: div_pos_pos_trivial)
  qed
qed

lemma formatWeekLabel_east:
  assumes "p \<noteq> []" "match_week p = Some (year, week)" "0 \<le> tz" "tz < 1440"
  shows "formatWeekLabel tz (Str p) =
           (case civil_from_days (week_start (int year) (int week) div msPerDay) of
              (y, m, d) \<Rightarrow> ShortDate m d)"
  using assms local_day_of_midnight(1) [OF week_start_monday(2), of tz "int year" "int week"]
  by (simp add: formatWeekLabel_def local_month_day_def split: prod.splits)

lemma formatWeekLabel_west:
  assumes "p \<noteq> []" "match_week p = Some (year, week)" "- 1440 \<le> tz" "tz < 0"
  shows "formatWeekLabel tz (Str p) =
           (case civil_from_days (week_start (int year) (int week) div msPerDay - 1) of
              (y, m, d) \<Rightarrow> ShortDate m d)"
  using assms local_day_of_midnight(2) [OF week_start_monday(2), of tz "int year" "int week"]
  by (simp add: formatWeekLabel_def local_month_day_def split: prod.splits)

text \<open>
  C9. Week 1 of 2024 begins on Monday 2024-01-01, and that is the label where the browser's
  clock is on UTC; five hours behind UTC the same period is labelled 31 December, the
  Sunday before.
\<close>

theorem formatWeekLabel_west_of_utc:
  "formatWeekLabel 0 (Str ''2024-W01'') = ShortDate 1 1 \<and>
   formatWeekLabel (- 300) (Str ''2024-W01'') = ShortDate 12 31"
  by code_simp

subsection \<open>Query string of the filter\<close>

text \<open>
  \<^verbatim>\<open>setHours\<close> on the UTC midnight that a date-only text is read as: the local day it
  keeps is that day where local time is level with or ahead of UTC, and the day before
  where local time is behind.
\<close>

lemma setHours_of_midnight:
  "0 \<le> tz \<Longrightarrow> tz < 1440 \<Longrightarrow>
     setHours tz (D * msPerDay) h mi s ms =
       utc_time tz (D * msPerDay + (h * 3600000 + mi * 60000 + s * 1000 + ms))"
  "- 1440 \<le> tz \<Longrightarrow> tz < 0 \<Longrightarrow>
     setHours tz (D * msPerDay) h mi s ms =
       utc_time tz ((D - 1) * msPerDay + (h * 3600000 + mi * 60000 + s * 1000 + ms))"
  using local_day_of_midnight [OF midnight_mod, of tz D]
  by (simp_all add: setHours_def midnight_div)

text \<open>
  For the value of a date input, then: where local time is level with or ahead of UTC the
  bounds are the first and the last millisecond of the chosen day in local time; where
  local time is behind UTC they are those of the day before.
\<close>

lemma formatDateForQuery_date_only:
  assumes "parse_date_only v = Some (y, m, d)"
  defines "day \<equiv> days_from_civil y m d"
  shows "0 \<le> tz \<Longrightarrow> tz < 1440 \<Longrightarrow>
           formatDateForQuery host tz (Some v) False =
             Some (toISOString (utc_time tz (day * msPerDay))) \<and>
           formatDateForQuery host tz (Some v) True =
             Some (toISOString (utc_time tz (day * msPerDay + 86399999)))"
    and "- 1440 \<le> tz \<Longrightarrow> tz < 0 \<Longrightarrow>
           formatDateForQuery host tz (Some v) False =
             Some (toISOString (utc_time tz ((day - 1) * msPerDay))) \<and>
           formatDateForQuery host tz (Some v) True =
             Some (toISOString (utc_time tz ((day - 1) * msPerDay + 86399999)))"
proof -
  have ne: "v \<noteq> []"
    using assms(1) by (auto simp: parse_date_only_def split: if_splits)
  have p: "js_date_parse host v = Some (day * msPerDay)"
    using assms(1) by (simp add: js_date_parse_def day_def)
  show "0 \<le> tz \<Longrightarrow> tz < 1440 \<Longrightarrow>
           formatDateForQuery host tz (Some v) False =
             Some (toISOString (utc_time tz (day * msPerDay))) \<and>
           formatDateForQuery host tz (Some v) True =
             Some (toISOString (utc_time tz (day * msPerDay + 86399999)))"
    using ne p by (simp add: formatDateForQuery_def setHours_of_midnight(1))
  show "- 1440 \<le> tz \<Longrightarrow> tz < 0 \<Longrightarrow>
           formatDateForQuery host tz (Some v) False =
             Some (toISOString (utc_time tz ((day - 1) * msPerDay))) \<and>
           formatDateForQuery host tz (Some v) True =
             Some (toISOString (utc_time tz ((day - 1) * msPerDay + 86399999)))"
    using ne p by (simp add: formatDateForQuery_def setHours_of_midnight(2))
qed

text \<open>
  C3. With the browser five hours behind UTC and the end date 2024-01-15, the query carries
  \<^verbatim>\<open>end_date=2024-01-15T04:59:59.999Z\<close>, the last millisecond of the local 14th: the
  bound lies before the local beginning of the 15th, so the chosen day is left out whole.
\<close>

theorem buildFilterQuery_west_of_utc:
  "buildFilterQuery (\<lambda>s. None) (- 300) \<lparr>fstart = None, fend = Some ''2024-01-15''\<rparr> =
     ''?end_date=2024-01-15T04%3A59%3A59.999Z'' \<and>
   setHours (- 300) (days_from_civil 2024 1 15 * msPerDay) 23 59 59 999 <
     utc_time (- 300) (days_from_civil 2024 1 15 * msPerDay)"
  by code_simp

text \<open>
  C10. A non-empty text that does not read as a date comes back from
  \<^verbatim>\<open>formatDateForQuery\<close> as it is, for either bound, and is appended as the value of
  \<^verbatim>\<open>start_date\<close> or \<^verbatim>\<open>end_date\<close>; the query string carries it in the encoding of
  \<^verbatim>\<open>URLSearchParams\<close>.
\<close>

theorem formatDateForQuery_unparseable:
  assumes "v \<noteq> []" and "js_date_parse host v = None"
  shows "formatDateForQuery host tz (Some v) endOfDay = Some v \<and>
         buildFilterParams host tz \<lparr>fstart = Some v, fend = None\<rparr> = [(''start_date'', v)] \<and>
         buildFilterParams host tz \<lparr>fstart = None, fend = Some v\<rparr> = [(''end_date'', v)] \<and>
         buildFilterQuery host tz \<lparr>fstart = Some v, fend = None\<rparr> =
           ''?start_date='' @ urlencode v \<and>
         buildFilterQuery host tz \<lparr>fstart = None, fend = Some v\<rparr> =
           ''?end_date='' @ urlencode v"
proof -
  have f: "formatDateForQuery host tz (Some v) e = Some v" for e
    using assms by (simp add: formatDateForQuery_def)
  have p: "buildFilterParams host tz \<lparr>fstart = Some v, fend = None\<rparr> = [(''start_date'', v)]"
    "buildFilterParams host tz \<lparr>fstart = None, fend = Some v\<rparr> = [(''end_date'', v)]"
    using assms(1) by (simp_all add: buildFilterParams_def js_truthy_str_def to_param_def f)
  have u: "urlencode ''start_date'' = ''start_date''" "urlencode ''end_date'' = ''end_date''"
    by code_simp+
  show ?thesis
    unfolding buildFilterQuery_def p Let_def
    by (simp add: f u)
qed

theorem formatDateForQuery_unparseable_witness:
  "''yesterday'' \<noteq> [] \<and> js_date_parse (\<lambda>s. None) ''yesterday'' = None \<and>
   formatDateForQuery (\<lambda>s. None) 0 (Some ''yesterday'') True = Some ''yesterday'' \<and>
   buildFilterQuery (\<lambda>s. None) 0 \<lparr>fstart = Some ''yesterday'', fend = None\<rparr> =
     ''?start_date=yesterday''"
proof -
  have a: "''yesterday'' \<noteq> []" by simp
  have b: "js_date_parse (\<lambda>s. None) ''yesterday'' = None"
    by (simp add: js_date_parse_def parse_date_only_def)
  have c: "urlencode ''yesterday'' = ''yesterday''" by code_simp
  show ?thesis
    using a b formatDateForQuery_unparseable [OF a b, of 0 True] by (simp add: c)
qed

subsection \<open>Refresh cycle\<close>

lemma metric_cases:
  "m = ActiveUsers \<or> m = Requests \<or> m = Adoption \<or> m = AdoptionByDepartment \<or> m = LogHours
   \<or> m = RequestDurations \<or> m = RequestSuccessRates \<or> m = InactiveEmployees
   \<or> m = ActivitiesToday \<or> m = Satisfaction \<or> m = EaseComparison"
  by (cases m) simp_all

text \<open>
  C1, as the script has it. When one endpoint answers with a failure envelope and the
  others succeed, every other metric is rendered with its data, and the failing one is
  rendered with the empty list if its step has the \<^verbatim>\<open>else\<close> branch. When the fetch of
  one metric throws and the others succeed, the metrics before it are rendered with their
  data and nothing is rendered from there on.
\<close>

theorem loadDashboardData_one_failure:
  assumes others: "\<forall>m'. m' \<noteq> m \<longrightarrow> fetch m' = Envelope True (rows m')"
  shows "(fetch m = Envelope False junk \<longrightarrow>
            (\<forall>m'. m' \<noteq> m \<longrightarrow> (m', rows m') \<in> set (loadDashboardData fetch)) \<and>
            (renders_empty_on_failure m \<longrightarrow> (m, []) \<in> set (loadDashboardData fetch))) \<and>
         (fetch m = Thrown \<longrightarrow>
            loadDashboardData fetch =
              map (\<lambda>m'. (m', rows m')) (takeWhile (\<lambda>m'. m' \<noteq> m) (map fst dashboard_steps)))"
proof (intro conjI impI allI)
  fix m'
  assume f: "fetch m = Envelope False junk" and ne: "m' \<noteq> m"
  show "(m', rows m') \<in> set (loadDashboardData fetch)"
    using metric_cases [of m] metric_cases [of m'] ne f others
    by (elim disjE; simp add: loadDashboardData_def dashboard_steps_def)
next
  assume f: "fetch m = Envelope False junk" and e: "renders_empty_on_failure m"
  show "(m, []) \<in> set (loadDashboardData fetch)"
    using metric_cases [of m] e f others
    by (elim disjE;
        simp add: loadDashboardData_def dashboard_steps_def renders_empty_on_failure_def)
next
  assume f: "fetch m = Thrown"
  show "loadDashboardData fetch =
          map (\<lambda>m'. (m', rows m')) (takeWhile (\<lambda>m'. m' \<noteq> m) (map fst dashboard_steps))"
    using metric_cases [of m] f others
    by (elim disjE; simp add: loadDashboardData_def dashboard_steps_def)
qed

theorem loadDashboardData_one_failure_witness:
  "(Requests, [Requests]) \<in> set (loadDashboardData
      (\<lambda>m. if m = LogHours then Envelope False [] else Envelope True [m])) \<and>
   (LogHours, []) \<in> set (loadDashboardData
      (\<lambda>m. if m = LogHours then Envelope False [] else Envelope True [m])) \<and>
   loadDashboardData (\<lambda>m. if m = Adoption then Thrown else Envelope True [m]) =
     [(ActiveUsers, [ActiveUsers]), (Requests, [Requests])]"
proof -
  have a: "\<forall>m'. m' \<noteq> LogHours \<longrightarrow>
      (if m' = LogHours then Envelope False [] else Envelope True [m']) = Envelope True [m']"
    by simp
  have b: "\<forall>m'. m' \<noteq> Adoption \<longrightarrow>
      (if m' = Adoption then Thrown else Envelope True [m']) = Envelope True [m']"
    by simp
  show ?thesis
    using loadDashboardData_one_failure [OF a, of "[]"]
      loadDashboardData_one_failure [OF b, of "[]"]
    by (simp add: renders_empty_on_failure_def dashboard_steps_def)
qed

text \<open>
  A fetch that throws at the first step ends the cycle with nothing rendered, although
  every other endpoint would have answered; and a failure envelope for the active users
  does not bring a call of their renderer with the empty list.
\<close>

theorem loadDashboardData_counterexample:
  "loadDashboardData (\<lambda>m. if m = ActiveUsers then Thrown else Envelope True [m]) = [] \<and>
   (ActiveUsers, []) \<notin> set (loadDashboardData
      (\<lambda>m. if m = ActiveUsers then Envelope False [] else Envelope True [m]))"
  by (simp add: loadDashboardData_def dashboard_steps_def)

subsection \<open>Chart handles\<close>

lemma live_on_release:
  assumes "chart_inv st"
  shows "live_on s (release s st) = []"
proof (cases "var st s")
  case None
  then have "\<forall>(s', h) \<in> set (live st). s' \<noteq> s"
    using assms by (auto simp: chart_inv_def)
  then have "filter (\<lambda>(s', h). s' = s) (live st) = []"
    by (auto simp: filter_empty_conv)
  then show ?thesis using None by (simp add: release_def live_on_def)
next
  case (Some h)
  have "\<forall>(s', h') \<in> set (live st). s' = s \<longrightarrow> h' = h"
    using assms Some by (auto simp: chart_inv_def)
  then have "filter (\<lambda>(s', h'). s' = s) (filter (\<lambda>(s', h'). h' \<noteq> h) (live st)) = []"
    by (auto simp: filter_empty_conv)
  then show ?thesis using Some by (simp add: release_def live_on_def chart_destroy_def)
qed

lemma set_live_release: "set (live (release s st)) \<subseteq> set (live st)"
  by (auto simp: release_def chart_destroy_def split: option.splits)

lemma live_on_release_le: "length (live_on s' (release s st)) \<le> length (live_on s' st)"
proof (cases "var st s")
  case None
  then show ?thesis by (simp add: release_def)
next
  case (Some h)
  have "filter (\<lambda>(a, b). a = s') (filter (\<lambda>(a, b). b \<noteq> h) (live st)) =
        filter (\<lambda>(a, b). b \<noteq> h) (filter (\<lambda>(a, b). a = s') (live st))"
    by (simp add: conj_commute case_prod_unfold)
  then show ?thesis
    using Some length_filter_le [of "\<lambda>(a, b). b \<noteq> h" "filter (\<lambda>(a, b). a = s') (live st)"]
    by (simp add: release_def chart_destroy_def live_on_def)
qed

lemma release_fields [simp]: "var (release s st) = var st" "created (release s st) = created st"
  by (simp_all add: release_def chart_destroy_def split: option.splits)

lemma chart_inv_release: "chart_inv st \<Longrightarrow> chart_inv (release s st)"
  unfolding chart_inv_def
  using set_live_release [of s st] live_on_release_le [of _ s st]
  by (fastforce intro: order_trans)

lemma live_on_new_Chart:
  "live_on s' (new_Chart s st) = live_on s' st @ (if s' = s then [created st] else [])"
  by (simp add: new_Chart_def live_on_def)

lemma chart_inv_new_Chart:
  assumes "chart_inv st" "live_on s st = []"
  shows "chart_inv (new_Chart s st)"
proof -
  have a: "\<forall>s'. length (live_on s' (new_Chart s st)) \<le> 1"
    using assms by (simp add: live_on_new_Chart chart_inv_def)
  have "\<forall>(s', h) \<in> set (live st). s' \<noteq> s"
    using assms(2) by (auto simp: live_on_def filter_empty_conv)
  then have b: "\<forall>(s', h) \<in> set (live (new_Chart s st)). var (new_Chart s st) s' = Some h"
    using assms(1) by (auto simp: new_Chart_def chart_inv_def)
  have c: "\<forall>s' h. var (new_Chart s st) s' = Some h \<longrightarrow> h < created (new_Chart s st)"
    using assms(1) by (auto simp: new_Chart_def chart_inv_def less_Suc_eq)
  show ?thesis unfolding chart_inv_def using a b c by blast
qed

lemma chart_inv_replace: "chart_inv st \<Longrightarrow> chart_inv (new_Chart s (release s st))"
  by (simp add: chart_inv_new_Chart chart_inv_release live_on_release)

lemma live_on_replace:
  "chart_inv st \<Longrightarrow> live_on s (new_Chart s (release s st)) = [created st]"
  by (simp add: live_on_new_Chart live_on_release)

lemma calcAverage_readable:
  "series_readable s \<Longrightarrow> \<exists>v. calcAverage s = Inr v"
proof (cases s)
  case (SeriesArray items)
  assume "series_readable s"
  then have "no_null items" using SeriesArray by simp
  then have "\<exists>v. reduce_values a items = Inr v" for a
    by (induction items arbitrary: a) (auto simp: no_null_def)
  then obtain v where "reduce_values (Fin 0) items = Inr v" by blast
  then show ?thesis using SeriesArray by (simp add: calcAverage_def)
qed (simp_all add: calcAverage_def)

lemma renderEase_readable:
  "ease_readable data \<Longrightarrow>
   renderEaseComparisonChart True data st =
     (None, new_Chart EaseComparisonChart (release EaseComparisonChart st))"
proof -
  assume r: "ease_readable data"
  then obtain a b where d: "data = Some (a, b)" "series_readable a" "series_readable b"
    by (auto simp: ease_readable_def split: option.splits)
  obtain va vb where "calcAverage a = Inr va" "calcAverage b = Inr vb"
    using calcAverage_readable d(2,3) by blast
  then show ?thesis
    by (simp add: renderEaseComparisonChart_def d(1))
qed

text \<open>Every render leaves the state it found, that state with the chart of its slot
  released, or the latter with a new chart on the slot.\<close>

lemma render_step_shape:
  "\<exists>s. render_step r st = st \<or> render_step r st = release s st
       \<or> render_step r st = new_Chart s (release s st)"
proof (cases r)
  case (RenderActiveUsers canvas data)
  then show ?thesis
    by (auto simp: renderActiveUsersChart_def Let_def)
next
  case (RenderRequests canvas data)
  then show ?thesis
    by (auto simp: renderRequestsChart_def Let_def)
next
  case (RenderEaseComparison canvas data)
  then show ?thesis
    by (auto simp: renderEaseComparisonChart_def Let_def split: option.splits sum.splits)
next
  case (RenderPlanningCoverage canvas d view)
  then show ?thesis
    by (auto simp: renderPlanningCoverageChart_def Let_def)
qed

lemma chart_inv_step: "chart_inv st \<Longrightarrow> chart_inv (render_step r st)"
  using render_step_shape [of r st]
  by (auto simp: chart_inv_replace chart_inv_release)

lemma chart_inv_init: "chart_inv init_charts"
  by (simp add: chart_inv_def init_charts_def live_on_def)

lemma chart_inv_run: "chart_inv (run_renders rs)"
proof -
  have "chart_inv st \<Longrightarrow> chart_inv (foldl (\<lambda>st r. render_step r st) st rs)" for st
    by (induction rs arbitrary: st) (simp_all add: chart_inv_step)
  then show ?thesis unfolding run_renders_def using chart_inv_init by blast
qed

text \<open>
  C4, as the script has it. After any sequence of renders, whatever their data, a slot has
  at most one live chart. On a page that has the canvases, a render of the active users or
  the requests with an array of rows, of the ease comparison with its two series (each
  missing or an array of entries), and of the planning coverage with entries to show,
  none of the elements being \<^verbatim>\<open>null\<close>, leaves exactly one live chart on its slot, a
  newly created one: the chart that was there has been destroyed. A render of the planning
  coverage with no entries to show destroys the chart of its slot and creates none.
\<close>

theorem render_one_live_handle:
  fixes st :: charts and rs :: "'r render list" and d :: "'r planning_data"
    and rows :: "'r js_rows"
  assumes "st = run_renders rs"
  shows "(\<forall>s. length (live_on s st) \<le> 1) \<and>
         (\<forall>s h. var st s = Some h \<longrightarrow> h \<noteq> created st) \<and>
         (rows_readable rows \<longrightarrow>
            live_on ActiveUsersChart (snd (renderActiveUsersChart True rows st)) = [created st] \<and>
            live_on RequestsChart (snd (renderRequestsChart True rows st)) = [created st]) \<and>
         (ease_readable ease \<longrightarrow>
            live_on EaseComparisonChart (snd (renderEaseComparisonChart True ease st)) =
              [created st]) \<and>
         (canvas \<and> trimmed_dataset d view \<noteq> [] \<and> no_null (trimmed_dataset d view) \<longrightarrow>
            live_on PlanningCoverageChart (snd (renderPlanningCoverageChart canvas d view st)) =
              [created st]) \<and>
         (canvas \<and> trimmed_dataset d view = [] \<longrightarrow>
            live_on PlanningCoverageChart (snd (renderPlanningCoverageChart canvas d view st)) =
              [])"
proof -
  have inv: "chart_inv st"
    unfolding assms by (rule chart_inv_run)
  have "\<forall>s. length (live_on s st) \<le> 1" and "\<forall>s h. var st s = Some h \<longrightarrow> h \<noteq> created st"
    using inv by (auto simp: chart_inv_def)
  moreover have "live_on s (new_Chart s (release s st)) = [created st]" for s
    using inv by (rule live_on_replace)
  moreover have "live_on s (release s st) = []" for s
    using inv by (rule live_on_release)
  ultimately show ?thesis
    by (simp add: renderActiveUsersChart_def renderRequestsChart_def renderEase_readable
        renderPlanningCoverageChart_def Let_def)
qed

theorem render_one_live_handle_witness:
  "live_on ActiveUsersChart
     (snd (renderActiveUsersChart True (Rows [Some ()])
        (run_renders [RenderActiveUsers True (Rows [Some ()])]))) = [1] \<and>
   live_on EaseComparisonChart
     (snd (renderEaseComparisonChart True (Some (SeriesArray [], SeriesUndefined))
        (run_renders [RenderActiveUsers True (Rows [Some ()])]))) = [1] \<and>
   live_on PlanningCoverageChart
     (snd (renderPlanningCoverageChart True \<lparr>monthly = [Some ()], weekly = [Some (), Some ()]\<rparr>
        ''weekly'' (run_renders [RenderActiveUsers True (Rows [Some ()])]))) = [1] \<and>
   live_on PlanningCoverageChart
     (snd (renderPlanningCoverageChart True \<lparr>monthly = [Some ()], weekly = []\<rparr>
        ''weekly'' (run_renders [RenderActiveUsers True (Rows [Some ()])]))) = []"
proof -
  let ?rs = "[RenderActiveUsers True (Rows [Some ()])]"
  have c: "created (run_renders ?rs) = 1"
    by (simp add: run_renders_def init_charts_def renderActiveUsersChart_def release_def
        new_Chart_def no_null_def)
  have r: "rows_readable (Rows [Some ()])"
    "ease_readable (Some (SeriesArray [], SeriesUndefined))"
    by (simp_all add: no_null_def ease_readable_def)
  have t: "trimmed_dataset \<lparr>monthly = [Some ()], weekly = [Some (), Some ()]\<rparr> ''weekly'' \<noteq> []"
    "no_null (trimmed_dataset \<lparr>monthly = [Some ()], weekly = [Some (), Some ()]\<rparr> ''weekly'')"
    "trimmed_dataset \<lparr>monthly = [Some ()], weekly = []\<rparr> ''weekly'' = []"
    by (simp_all add: trimmed_dataset_def slice_last_def no_null_def)
  show ?thesis
    using r t
      render_one_live_handle [OF refl, where rs = ?rs and rows = "Rows [Some ()]"
        and ease = "Some (SeriesArray [], SeriesUndefined)" and canvas = True
        and d = "\<lparr>monthly = [Some ()], weekly = [Some (), Some ()]\<rparr>" and view = "''weekly''"]
      render_one_live_handle [OF refl, where rs = ?rs and rows = "Rows [Some ()]"
        and ease = "Some (SeriesArray [], SeriesUndefined)" and canvas = True
        and d = "\<lparr>monthly = [Some ()], weekly = []\<rparr>" and view = "''weekly''"]
    by (simp add: c)
qed

text \<open>
  The planning coverage is rendered for the months and then for the weeks, of which there
  are none: the second render destroys the chart of the first and leaves the slot without
  a live chart.
\<close>

theorem renderPlanningCoverageChart_counterexample:
  "live_on PlanningCoverageChart
     (snd (renderPlanningCoverageChart True \<lparr>monthly = [Some ()], weekly = []\<rparr> ''monthly''
        init_charts)) = [0] \<and>
   live_on PlanningCoverageChart
     (snd (renderPlanningCoverageChart True \<lparr>monthly = [Some ()], weekly = []\<rparr> ''weekly''
        (snd (renderPlanningCoverageChart True \<lparr>monthly = [Some ()], weekly = []\<rparr> ''monthly''
           init_charts)))) = []"
  by (simp add: init_charts_def renderPlanningCoverageChart_def trimmed_dataset_def
      slice_last_def release_def new_Chart_def live_on_def chart_destroy_def no_null_def)

text \<open>
  A render whose data cannot be read throws after it has destroyed the chart of its slot:
  the slot is left without a live chart.
\<close>

lemma render_throws_after_destroy:
  assumes "st = run_renders rs"
  shows "\<not> rows_readable rows \<longrightarrow>
           renderActiveUsersChart True rows st = (Some TypeError, release ActiveUsersChart st) \<and>
           live_on ActiveUsersChart (snd (renderActiveUsersChart True rows st)) = [] \<and>
           renderRequestsChart True rows st = (Some TypeError, release RequestsChart st) \<and>
           live_on RequestsChart (snd (renderRequestsChart True rows st)) = []"
    and "renderEaseComparisonChart True None st =
           (Some TypeError, release EaseComparisonChart st) \<and>
         live_on EaseComparisonChart (snd (renderEaseComparisonChart True None st)) = []"
proof -
  have inv: "chart_inv st"
    unfolding assms by (rule chart_inv_run)
  have e: "live_on s (release s st) = []" for s
    using inv by (rule live_on_release)
  show "\<not> rows_readable rows \<longrightarrow>
           renderActiveUsersChart True rows st = (Some TypeError, release ActiveUsersChart st) \<and>
           live_on ActiveUsersChart (snd (renderActiveUsersChart True rows st)) = [] \<and>
           renderRequestsChart True rows st = (Some TypeError, release RequestsChart st) \<and>
           live_on RequestsChart (snd (renderRequestsChart True rows st)) = []"
    by (simp add: renderActiveUsersChart_def renderRequestsChart_def e)
  show "renderEaseComparisonChart True None st =
           (Some TypeError, release EaseComparisonChart st) \<and>
         live_on EaseComparisonChart (snd (renderEaseComparisonChart True None st)) = []"
    by (simp add: renderEaseComparisonChart_def e)
qed

subsection \<open>Ease-comparison editor\<close>

text \<open>On rows that have both inputs the loop is a filter: it keeps the rows with a
  non-empty period and a value that is not not-a-number, in their order.\<close>

lemma collectRows_well_formed:
  "list_all well_formed_row rows \<Longrightarrow>
   collectRows parseFloat rows =
     Inr (map (row_entry parseFloat) (filter (kept_row parseFloat) rows))"
  by (induction rows)
     (auto simp: well_formed_row_def kept_row_def row_entry_def js_isNaN_def)

lemma collectRows_missing_input:
  "\<not> list_all well_formed_row rows \<Longrightarrow> collectRows parseFloat rows = Inl TypeError"
proof (induction rows)
  case Nil
  then show ?case by simp
next
  case (Cons d ds)
  show ?case
  proof (cases "well_formed_row d")
    case True
    with Cons show ?thesis
      by (auto simp: well_formed_row_def split: sum.splits)
  next
    case False
    then show ?thesis
      by (auto simp: well_formed_row_def split: option.splits)
  qed
qed



text \<open>
  With rows that have both inputs, the save posts once, and the body holds, for each
  series, the entries of exactly the kept rows. Of an empty period, a value that does not
  parse and a valid row, the one valid row is posted.
\<close>

lemma saveEaseData_posts_filtered:
  assumes "list_all well_formed_row (odooDataContainer st)"
      and "list_all well_formed_row (nasmaDataContainer st)"
  shows "\<exists>st'. saveEaseData parseFloat server st = Inr st' \<and>
           filter (\<lambda>e. e \<noteq> EaseConsoleError \<and> (\<forall>t. e \<noteq> EaseAlert t) \<and> (\<forall>b. e \<noteq> EaseRender b))
             (drop (length (ease_log st)) (ease_log st')) =
             [EasePost
                \<lparr>odoo = Some (map (row_entry parseFloat)
                                (filter (kept_row parseFloat) (odooDataContainer st))),
                 nasma = Some (map (row_entry parseFloat)
                                (filter (kept_row parseFloat) (nasmaDataContainer st)))\<rparr>]"
  using collectRows_well_formed [OF assms(1), of parseFloat]
    collectRows_well_formed [OF assms(2), of parseFloat]
  by (simp add: saveEaseData_def Let_def split: save_response.splits)

lemma collectRows_three_rows:
  "collectRows (\<lambda>s. if s = ''7.5'' then Fin (15 / 2) else NaN)
     [\<lparr>period_input = Some [], value_input = Some ''7.5''\<rparr>,
      \<lparr>period_input = Some ''Week 2'', value_input = Some ''abc''\<rparr>,
      \<lparr>period_input = Some ''Week 3'', value_input = Some ''7.5''\<rparr>] =
   Inr [\<lparr>period = ''Week 3'', val = Some (Fin (15 / 2))\<rparr>]"
  by (simp add: js_isNaN_def)

text \<open>
  The rows that the editor itself builds have no period input: whatever the series
  are, a save after opening the editor throws on the first row and posts nothing.
\<close>

lemma collectRows_populateEaseEditor:
  "collectRows parseFloat (populateEaseEditor show_value data) = Inl TypeError"
  by (cases data) (simp_all add: populateEaseEditor_def addEaseDataPoint_def)

lemma saveEaseData_showEaseEditor:
  "saveEaseData parseFloat server (showEaseEditor show_value st) = Inl TypeError"
  by (simp add: saveEaseData_def showEaseEditor_def collectRows_populateEaseEditor)

text \<open>
  C6. The editor is opened on one saved point of the first series, \<^verbatim>\<open>Week 1\<close> with
  value 7, and saved as it is: the save throws a \<^verbatim>\<open>TypeError\<close> while reading the first
  row and the valid row is not submitted.
\<close>

theorem saveEaseData_editor_row_throws:
  "saveEaseData parseFloat server
     (showEaseEditor show_value
        \<lparr>easeData = \<lparr>odoo = Some [\<lparr>period = ''Week 1'', val = Some (Fin 7)\<rparr>], nasma = Some []\<rparr>,
         modal_hidden = True, odooDataContainer = [], nasmaDataContainer = [],
         ease_log = []\<rparr>) = Inl TypeError"
  by (simp add: saveEaseData_def showEaseEditor_def populateEaseEditor_def
      addEaseDataPoint_def or_empty_def)

end
